theory Spec2Isabelle
  imports Complex_Main "HOL-Library.Multiset"
begin

section \<open>Data model\<close>

text \<open>
  A transaction as returned by the GraphQL query of \<^verbatim>\<open>getUserProfile\<close>:
  \<^verbatim>\<open>transactions { type amount createdAt path originEventId }\<close>.
  Amounts are integers (XP in bytes, levels). JavaScript adds them as doubles, which is
  exact as long as the sums stay within \<open>\<plusminus>2\<^sup>5\<^sup>3\<close>; the aggregation is modelled by
  \<^typ>\<open>int\<close>, and is faithful within that range. A path may be absent (\<^verbatim>\<open>null\<close>), which is
  \<^term>\<open>None\<close>; the creation time stamp is kept as the string the API delivers.
\<close>

record transaction =
  type :: string
  amount :: int
  createdAt :: string
  path :: "string option"
  originEventId :: int

text \<open>
  A plain JavaScript object used as a dictionary: the list of its own properties in
  insertion order. Reading an own property gives the first (and only) entry with that
  key; writing replaces the entry in place or appends a new one. What a read finds when
  there is no own property is said where the object is used.
\<close>

type_synonym 'v js_object = "(string \<times> 'v) list"

fun get_prop :: "'v js_object \<Rightarrow> string \<Rightarrow> 'v option" where
  "get_prop [] k = None"
| "get_prop ((k', v) # rest) k = (if k' = k then Some v else get_prop rest k)"

fun set_prop :: "'v js_object \<Rightarrow> string \<Rightarrow> 'v \<Rightarrow> 'v js_object" where
  "set_prop [] k v = [(k, v)]"
| "set_prop ((k', v') # rest) k v =
     (if k' = k then (k, v) # rest else (k', v') # set_prop rest k v)"

definition object_values :: "'v js_object \<Rightarrow> 'v list" where
  "object_values obj = map snd obj"

section \<open>Aggregation in the GraphQL service\<close>

text \<open>
  \<^verbatim>\<open>calculateTotalXP(transactions) {
      return transactions.filter(t => t.type === 'xp')
                         .reduce((sum, t) => sum + t.amount, 0); }\<close>
\<close>

definition calculateTotalXP :: "transaction list \<Rightarrow> int" where
  "calculateTotalXP transactions =
     foldl (\<lambda>sum t. sum + amount t) 0 (filter (\<lambda>t. type t = ''xp'') transactions)"

text \<open>
  \<^verbatim>\<open>groupXPByPath(transactions) {
      return transactions.filter(t => t.type === 'xp')
          .reduce((acc, t) => {
              const path = t.path || 'Unknown';
              acc[path] = (acc[path] || 0) + t.amount;
              return acc;
          }, {}); }\<close>
  The operator \<^verbatim>\<open>||\<close> takes its right operand when the left one is falsy: an absent
  or empty path, an absent or zero sum.
\<close>

definition path_or_unknown :: "transaction \<Rightarrow> string" where
  "path_or_unknown t =
     (case path t of None \<Rightarrow> ''Unknown'' | Some p \<Rightarrow> if p = [] then ''Unknown'' else p)"

text \<open>
  The accumulator is a plain object, so \<^verbatim>\<open>acc[path]\<close> also finds what
  \<^verbatim>\<open>Object.prototype\<close> provides. For the name of one of its functions the read gives
  that function, which is truthy, and \<^verbatim>\<open>+\<close> appends the amount to the text of the
  function; the assignment then creates an own property holding that string, to which the
  next amounts are appended. For \<^verbatim>\<open>__proto__\<close> the read gives the prototype object,
  and the assignment of the resulting string runs the inherited setter, which ignores every
  value that is neither an object nor \<^verbatim>\<open>null\<close>: the accumulator is left as it was.
  The text of a function depends on the engine and is kept symbolic.
\<close>

datatype js_text =
    Function_text string
  | Appended js_text int

datatype jsval = Num int | Text js_text

definition object_prototype_functions :: "string list" where
  "object_prototype_functions =
     [''constructor'', ''__defineGetter__'', ''__defineSetter__'', ''hasOwnProperty'',
      ''__lookupGetter__'', ''__lookupSetter__'', ''isPrototypeOf'',
      ''propertyIsEnumerable'', ''toString'', ''valueOf'', ''toLocaleString'']"

definition groupXPByPath_step :: "jsval js_object \<Rightarrow> transaction \<Rightarrow> jsval js_object" where
  "groupXPByPath_step acc t =
     (let p = path_or_unknown t
      in if p = ''__proto__'' then acc
         else set_prop acc p
                (case get_prop acc p of
                   Some (Num v) \<Rightarrow> Num ((if v = 0 then 0 else v) + amount t)
                 | Some (Text s) \<Rightarrow> Text (Appended s (amount t))
                 | None \<Rightarrow>
                     if p \<in> set object_prototype_functions
                     then Text (Appended (Function_text p) (amount t))
                     else Num (0 + amount t)))"

definition groupXPByPath :: "transaction list \<Rightarrow> jsval js_object" where
  "groupXPByPath transactions =
     foldl groupXPByPath_step [] (filter (\<lambda>t. type t = ''xp'') transactions)"

text \<open>
  \<^verbatim>\<open>getCurrentLevel(transactions) {
      const levelTransactions = transactions
          .filter(t => t.type === 'level')
          .sort((a, b) => b.amount - a.amount);
      return levelTransactions[0]?.amount || 0; }\<close>
  \<^verbatim>\<open>Array.prototype.sort\<close> is stable, and the comparator orders by descending amount:
  this is the stable insertion sort on the key \<open>- amount\<close>.
\<close>

definition getCurrentLevel :: "transaction list \<Rightarrow> int" where
  "getCurrentLevel transactions =
     (let levelTransactions =
            sort_key (\<lambda>t. - amount t) (filter (\<lambda>t. type t = ''level'') transactions)
      in case levelTransactions of
           [] \<Rightarrow> 0
         | t # _ \<Rightarrow> if amount t = 0 then 0 else amount t)"

section \<open>The user model\<close>

text \<open>
  The record handed to the \<^verbatim>\<open>User\<close> constructor. The constructor reads
  \<^verbatim>\<open>userData.transactions || []\<close>, so the array may be absent. (The remaining fields
  of the class take no part in the level or in the XP series.)
\<close>

record user_data =
  ud_login :: string
  ud_transactions :: "transaction list option"

record user =
  login :: string
  transactions :: "transaction list"
  level :: int

text \<open>
  \<^verbatim>\<open>this.transactions = userData.transactions || [];
  this.level = this.transactions[0]?.amount || 0;\<close>
\<close>

definition User :: "user_data \<Rightarrow> user" where
  "User userData =
     (let txs = (case ud_transactions userData of None \<Rightarrow> [] | Some ts \<Rightarrow> ts)
      in \<lparr> login = ud_login userData,
           transactions = txs,
           level = (case txs of [] \<Rightarrow> 0 | t # _ \<Rightarrow> if amount t = 0 then 0 else amount t) \<rparr>)"

text \<open>
  \<^verbatim>\<open>getXPOverTime() {
      let accumulator = 0;
      return this.transactions.filter(t => t.type === 'xp')
          .map(t => ({ date: new Date(t.createdAt), value: (accumulator += t.amount) })); }\<close>
  The mutable accumulator is threaded through the map as an argument.
\<close>

record xp_point =
  date :: string
  "value" :: int

fun accumulate_xp :: "int \<Rightarrow> transaction list \<Rightarrow> xp_point list" where
  "accumulate_xp accumulator [] = []"
| "accumulate_xp accumulator (t # ts) =
     \<lparr> date = createdAt t, value = accumulator + amount t \<rparr>
       # accumulate_xp (accumulator + amount t) ts"

definition getXPOverTime :: "user \<Rightarrow> xp_point list" where
  "getXPOverTime u = accumulate_xp 0 (filter (\<lambda>t. type t = ''xp'') (transactions u))"

section \<open>JavaScript numbers\<close>

text \<open>
  Chart coordinates are JavaScript numbers: IEEE 754 doubles. A number is a finite value,
  one of the two infinities, or \<^verbatim>\<open>NaN\<close>. A finite value is kept as the real number
  it denotes, and every arithmetic operation rounds its exact result to the nearest double,
  a tie to the even significand, below.

  The binade of a positive real: the largest \<open>e\<close> with \<open>2\<^sup>e \<le> x\<close>, searched upwards
  from 0 or downwards from -1 and kept within \<open>-1022 \<dots> 1024\<close>. Below \<open>2\<^sup>-\<^sup>1\<^sup>0\<^sup>2\<^sup>2\<close> the
  doubles are subnormal and keep the spacing of the lowest binade; from \<open>2\<^sup>1\<^sup>0\<^sup>2\<^sup>4\<close> on
  the rounded value is replaced by an infinity.
\<close>

fun exponent_up :: "nat \<Rightarrow> int \<Rightarrow> real \<Rightarrow> int" where
  "exponent_up n e x =
     (if n = 0 then e else if 2 powi (e + 1) \<le> x then exponent_up (n - 1) (e + 1) x else e)"

fun exponent_down :: "nat \<Rightarrow> int \<Rightarrow> real \<Rightarrow> int" where
  "exponent_down n e x =
     (if n = 0 then e else if x < 2 powi e then exponent_down (n - 1) (e - 1) x else e)"

declare exponent_up.simps [simp del] exponent_down.simps [simp del]

definition exponent :: "real \<Rightarrow> int" where
  "exponent x = (if 1 \<le> x then exponent_up 1024 0 x else exponent_down 1021 (- 1) x)"

text \<open>Rounding to the nearest integer, a tie to the even one.\<close>

definition round_even :: "real \<Rightarrow> int" where
  "round_even x =
     (let f = \<lfloor>x\<rfloor>; r = x - of_int f
      in if r < 1 / 2 then f else if 1 / 2 < r then f + 1 else if even f then f else f + 1)"

text \<open>
  The spacing of the doubles around \<open>x\<close>: 53 significant bits. The double nearest to
  \<open>x\<close> is the nearest multiple of that spacing.
\<close>

definition quantum :: "real \<Rightarrow> real" where
  "quantum x = 2 powi (exponent \<bar>x\<bar> - 52)"

definition dbl_val :: "real \<Rightarrow> real" where
  "dbl_val x = (if x = 0 then 0 else sgn x * (of_int (round_even (\<bar>x\<bar> / quantum x)) * quantum x))"

datatype jsnum = Fin real | PosInf | NegInf | NaN

definition signed_inf :: "bool \<Rightarrow> jsnum" where
  "signed_inf positive = (if positive then PosInf else NegInf)"

text \<open>
  The number that an operation with the exact result \<open>x\<close> returns. Negative zero is not
  told apart from zero: no operand below is a negative zero, since the integers of
  the model have none.
\<close>

definition dbl :: "real \<Rightarrow> jsnum" where
  "dbl x = (let v = dbl_val x in if 2 ^ 1024 \<le> \<bar>v\<bar> then signed_inf (0 < x) else Fin v)"

text \<open>
  The operators. \<^verbatim>\<open>0/0\<close> is \<^verbatim>\<open>NaN\<close>, \<^verbatim>\<open>x/0\<close> is an infinity, and
  \<^verbatim>\<open>NaN\<close> spreads through every operation and makes every comparison false.
\<close>

fun js_neg :: "jsnum \<Rightarrow> jsnum" where
  "js_neg (Fin a) = Fin (- a)"
| "js_neg PosInf = NegInf"
| "js_neg NegInf = PosInf"
| "js_neg NaN = NaN"

fun js_add :: "jsnum \<Rightarrow> jsnum \<Rightarrow> jsnum" where
  "js_add (Fin a) (Fin b) = dbl (a + b)"
| "js_add NaN _ = NaN"
| "js_add _ NaN = NaN"
| "js_add PosInf NegInf = NaN"
| "js_add NegInf PosInf = NaN"
| "js_add PosInf _ = PosInf"
| "js_add _ PosInf = PosInf"
| "js_add NegInf _ = NegInf"
| "js_add _ NegInf = NegInf"

definition js_sub :: "jsnum \<Rightarrow> jsnum \<Rightarrow> jsnum" where
  "js_sub a b = js_add a (js_neg b)"

fun js_mul :: "jsnum \<Rightarrow> jsnum \<Rightarrow> jsnum" where
  "js_mul (Fin a) (Fin b) = dbl (a * b)"
| "js_mul NaN _ = NaN"
| "js_mul _ NaN = NaN"
| "js_mul (Fin a) PosInf = (if a = 0 then NaN else signed_inf (0 < a))"
| "js_mul (Fin a) NegInf = (if a = 0 then NaN else signed_inf (a < 0))"
| "js_mul PosInf (Fin b) = (if b = 0 then NaN else signed_inf (0 < b))"
| "js_mul NegInf (Fin b) = (if b = 0 then NaN else signed_inf (b < 0))"
| "js_mul PosInf PosInf = PosInf"
| "js_mul PosInf NegInf = NegInf"
| "js_mul NegInf PosInf = NegInf"
| "js_mul NegInf NegInf = PosInf"

fun js_div :: "jsnum \<Rightarrow> jsnum \<Rightarrow> jsnum" where
  "js_div (Fin a) (Fin b) =
     (if b \<noteq> 0 then dbl (a / b) else if a = 0 then NaN else signed_inf (0 < a))"
| "js_div NaN _ = NaN"
| "js_div _ NaN = NaN"
| "js_div (Fin a) PosInf = Fin 0"
| "js_div (Fin a) NegInf = Fin 0"
| "js_div PosInf (Fin b) = signed_inf (0 \<le> b)"
| "js_div NegInf (Fin b) = signed_inf (b < 0)"
| "js_div PosInf PosInf = NaN"
| "js_div PosInf NegInf = NaN"
| "js_div NegInf PosInf = NaN"
| "js_div NegInf NegInf = NaN"

text \<open>The comparison \<^verbatim>\<open>a > b\<close>.\<close>

fun js_gt :: "jsnum \<Rightarrow> jsnum \<Rightarrow> bool" where
  "js_gt (Fin a) (Fin b) = (b < a)"
| "js_gt NaN _ = False"
| "js_gt _ NaN = False"
| "js_gt PosInf PosInf = False"
| "js_gt PosInf _ = True"
| "js_gt _ PosInf = False"
| "js_gt NegInf _ = False"
| "js_gt _ NegInf = True"

text \<open>
  \<^verbatim>\<open>Math.round\<close> rounds to the nearest integer, a tie towards plus infinity:
  \<open>\<lfloor>x + 1/2\<rfloor>\<close>, which is \<^const>\<open>round\<close>. The result is exact: a double with a
  fraction is below \<open>2\<^sup>5\<^sup>2\<close>, and every integer up to there is a double.
\<close>

fun Math_round :: "jsnum \<Rightarrow> jsnum" where
  "Math_round (Fin a) = Fin (of_int (round a))"
| "Math_round x = x"

text \<open>
  \<^verbatim>\<open>Math.cos\<close> and \<^verbatim>\<open>Math.sin\<close> are approximations that the language leaves to
  the engine. The engine is a parameter: its two functions on the finite numbers, whose
  results are taken as doubles.
\<close>

record js_engine =
  cos_impl :: "real \<Rightarrow> real"
  sin_impl :: "real \<Rightarrow> real"

fun Math_cos :: "js_engine \<Rightarrow> jsnum \<Rightarrow> jsnum" where
  "Math_cos E (Fin a) = dbl (cos_impl E a)"
| "Math_cos E _ = NaN"

fun Math_sin :: "js_engine \<Rightarrow> jsnum \<Rightarrow> jsnum" where
  "Math_sin E (Fin a) = dbl (sin_impl E a)"
| "Math_sin E _ = NaN"

text \<open>
  \<^verbatim>\<open>Math.PI\<close> is the double nearest to \<open>\<pi>\<close>, 3.141592653589793: the significand
  \<^verbatim>\<open>0x1921FB54442D18\<close> in the binade of 2.
\<close>

definition Math_PI :: jsnum where
  "Math_PI = Fin (884279719003555 / 2 ^ 48)"

text \<open>\<^verbatim>\<open>Math.max(...values)\<close>: minus infinity for no argument, \<^verbatim>\<open>NaN\<close> if any is.\<close>

fun js_max2 :: "jsnum \<Rightarrow> jsnum \<Rightarrow> jsnum" where
  "js_max2 (Fin a) (Fin b) = Fin (max a b)"
| "js_max2 NaN _ = NaN"
| "js_max2 _ NaN = NaN"
| "js_max2 PosInf _ = PosInf"
| "js_max2 _ PosInf = PosInf"
| "js_max2 NegInf b = b"
| "js_max2 a NegInf = a"

definition Math_max :: "jsnum list \<Rightarrow> jsnum" where
  "Math_max values = foldl js_max2 NegInf values"

text \<open>
  An integer of the response as a number: the nearest double, which is the integer
  itself up to \<open>2\<^sup>5\<^sup>3\<close>.
\<close>

definition js_int :: "int \<Rightarrow> jsnum" where
  "js_int i = dbl (of_int i)"

datatype js_error = InvalidResponseStructure | TypeError

section \<open>Fetching the profile\<close>

text \<open>
  The part of \<^verbatim>\<open>getUserProfile\<close> that follows the network request: from the
  \<^verbatim>\<open>data\<close> member of the GraphQL response to the profile object. Every member of
  the response that the code reads may be absent.
\<close>

record xp_entry =
  xp_amount :: int
  xp_originEventId :: int
  xp_path :: string

record audit =
  grade :: "real option"
  auditedAt :: "string option"

record progress =
  progress_path :: string
  succeeded :: bool
  progress_count :: int

record raw_user =
  raw_login :: string
  raw_email :: string
  raw_firstName :: string
  raw_lastName :: string
  raw_campus :: string
  raw_totalUp :: "int option"
  raw_totalDown :: "int option"
  raw_auditRatio :: "real option"
  raw_xps :: "xp_entry list option"
  raw_transactions :: "transaction list option"
  raw_audits :: "audit list option"
  raw_progressesByPath :: "progress list option"

record gql_data =
  data_user :: "raw_user list option"

record timeline_entry =
  tl_date :: string
  tl_amount :: int
  tl_originEventId :: int

text \<open>
  \<^verbatim>\<open>createTimeline(transactions) {
      return transactions.filter(t => t.type === 'xp')
          .map(xp => ({ date: new Date(xp.createdAt), amount: xp.amount,
                        originEventId: xp.originEventId })); }\<close>
\<close>

definition createTimeline :: "transaction list \<Rightarrow> timeline_entry list" where
  "createTimeline txs =
     map (\<lambda>xp. \<lparr> tl_date = createdAt xp, tl_amount = amount xp,
                 tl_originEventId = originEventId xp \<rparr>)
         (filter (\<lambda>t. type t = ''xp'') txs)"

record profile =
  basicInfo_login :: string
  basicInfo_email :: string
  basicInfo_firstName :: string
  basicInfo_lastName :: string
  basicInfo_campus :: string
  auditInfo_ratio :: real
  auditInfo_totalUp :: int
  auditInfo_totalDown :: int
  auditInfo_auditsperformed :: nat
  auditInfo_audits :: nat
  xpInfo_totalXP :: int
  xpInfo_xpByPath :: "jsval js_object"
  xpInfo_xps :: "xp_entry list"
  xpTimeline :: "timeline_entry list"
  progressInfo_totalProjects :: nat
  progressInfo_succeededProjects :: nat
  progressInfo_projectDetails :: "progress list"
  profile_level :: int

text \<open>
  \<^verbatim>\<open>if (!response || !response.user || !response.user[0]) {
      throw new Error('Invalid response structure from GraphQL'); }
  const userData = response.user[0];
  return {
    basicInfo: { login: userData.login, ... },
    auditInfo: { ratio: userData.auditRatio || 0, totalUp: userData.totalUp || 0,
                 totalDown: userData.totalDown || 0,
                 auditsperformed: userData.audits.length,
                 audits: userData.audits.filter(a => a.grade > 0).length },
    xpInfo: { totalXP: this.calculateTotalXP(userData.transactions),
              xpByPath: this.groupXPByPath(userData.transactions),
              xps: userData.xps || [] },
    xpTimeline: this.createTimeline(userData.transactions),
    progressInfo: { totalProjects: userData.progressesByPath.length,
                    succeededProjects: userData.progressesByPath.filter(p => p.succeeded).length,
                    projectDetails: userData.progressesByPath },
    level: this.getCurrentLevel(userData.transactions) };\<close>
  Reading \<^verbatim>\<open>.length\<close> of an absent array, or calling \<^verbatim>\<open>.filter\<close> on it, throws
  a \<^verbatim>\<open>TypeError\<close>; the members are evaluated in the order written, and the
  surrounding \<^verbatim>\<open>catch\<close> rethrows.
\<close>

definition getUserProfile :: "gql_data option \<Rightarrow> js_error + profile" where
  "getUserProfile response =
     (case response of
        None \<Rightarrow> Inl InvalidResponseStructure
      | Some r \<Rightarrow>
         (case data_user r of
            None \<Rightarrow> Inl InvalidResponseStructure
          | Some [] \<Rightarrow> Inl InvalidResponseStructure
          | Some (userData # _) \<Rightarrow>
             (case raw_audits userData of
                None \<Rightarrow> Inl TypeError
              | Some audits \<Rightarrow>
                 (case raw_transactions userData of
                    None \<Rightarrow> Inl TypeError
                  | Some txs \<Rightarrow>
                     (case raw_progressesByPath userData of
                        None \<Rightarrow> Inl TypeError
                      | Some progresses \<Rightarrow>
                          Inr \<lparr> basicInfo_login = raw_login userData,
                                basicInfo_email = raw_email userData,
                                basicInfo_firstName = raw_firstName userData,
                                basicInfo_lastName = raw_lastName userData,
                                basicInfo_campus = raw_campus userData,
                                auditInfo_ratio =
                                  (case raw_auditRatio userData of None \<Rightarrow> 0 | Some x \<Rightarrow> x),
                                auditInfo_totalUp =
                                  (case raw_totalUp userData of None \<Rightarrow> 0 | Some x \<Rightarrow> x),
                                auditInfo_totalDown =
                                  (case raw_totalDown userData of None \<Rightarrow> 0 | Some x \<Rightarrow> x),
                                auditInfo_auditsperformed = length audits,
                                auditInfo_audits =
                                  length (filter (\<lambda>a. case grade a of None \<Rightarrow> False
                                                         | Some g \<Rightarrow> 0 < g) audits),
                                xpInfo_totalXP = calculateTotalXP txs,
                                xpInfo_xpByPath = groupXPByPath txs,
                                xpInfo_xps = (case raw_xps userData of None \<Rightarrow> [] | Some x \<Rightarrow> x),
                                xpTimeline = createTimeline txs,
                                progressInfo_totalProjects = length progresses,
                                progressInfo_succeededProjects = length (filter succeeded progresses),
                                progressInfo_projectDetails = progresses,
                                profile_level = getCurrentLevel txs \<rparr>)))))"

section \<open>Charts of the SVG utilities\<close>

text \<open>
  \<^verbatim>\<open>createAuditRatioChart(up, down, containerId) {
      const container = document.getElementById(containerId);
      if (container) { container.innerHTML = ''; }
      ...
      const keys = [up, down];
      const maxAttributeValue = Math.max(...keys);
      const barWidth = 100 / keys.length;
      keys.forEach((key, index) => {
          const barHeight = (key / maxAttributeValue) * 100;
          rect.setAttribute('x', index * barWidth);
          rect.setAttribute('y', 100 - barHeight);
          rect.setAttribute('width', barWidth - 2);
          rect.setAttribute('height', barHeight);
          rect.setAttribute('fill', index === 0 ? "skyblue" : "lightgreen");
          svg.appendChild(rect); });
      container.appendChild(svg); }\<close>
  The result is the list of rectangles appended to the SVG element; the last line throws
  when the container does not exist.
\<close>

record bar_rect =
  rect_x :: jsnum
  rect_y :: jsnum
  rect_width :: jsnum
  rect_height :: jsnum
  rect_fill :: string

definition audit_bar :: "jsnum \<Rightarrow> jsnum \<Rightarrow> nat \<times> int \<Rightarrow> bar_rect" where
  "audit_bar maxAttributeValue barWidth ik =
     (case ik of (index, key) \<Rightarrow>
        let barHeight = js_mul (js_div (js_int key) maxAttributeValue) (Fin 100)
        in \<lparr> rect_x = js_mul (Fin (of_nat index)) barWidth,
             rect_y = js_sub (Fin 100) barHeight,
             rect_width = js_sub barWidth (Fin 2),
             rect_height = barHeight,
             rect_fill = (if index = 0 then ''skyblue'' else ''lightgreen'') \<rparr>)"

definition createAuditRatioChart :: "int \<Rightarrow> int \<Rightarrow> bool \<Rightarrow> js_error + bar_rect list" where
  "createAuditRatioChart up down container =
     (let keys = [up, down];
          maxAttributeValue = Math_max (map js_int keys);
          barWidth = js_div (Fin 100) (Fin (of_nat (length keys)));
          rects = map (audit_bar maxAttributeValue barWidth) (enumerate 0 keys)
      in if container then Inr rects else Inl TypeError)"

text \<open>
  \<^verbatim>\<open>calculateTimelinePath(xpData) {
      if (!xpData || xpData.length === 0) return '';
      const maxXP = Math.max(...xpData.map(d => d.amount));
      const pathData = xpData.map((d, i) => {
          const x = (i / (xpData.length - 1)) * 100;
          const y = 50 - (d.amount / maxXP) * 50;
          return `${i === 0 ? 'M' : 'L'}${x},${y}`; });
      return pathData.join(' '); }\<close>
  The path string is modelled by the list of its commands: the letter and the two
  coordinates, before they are printed. The empty string is the empty list.
\<close>

definition timeline_command ::
  "nat \<Rightarrow> jsnum \<Rightarrow> nat \<times> timeline_entry \<Rightarrow> char \<times> jsnum \<times> jsnum" where
  "timeline_command len maxXP point =
     (case point of (i, d) \<Rightarrow>
        let x = js_mul (js_div (Fin (of_nat i)) (js_sub (Fin (of_nat len)) (Fin 1))) (Fin 100);
            y = js_sub (Fin 50) (js_mul (js_div (js_int (tl_amount d)) maxXP) (Fin 50))
        in (if i = 0 then CHR ''M'' else CHR ''L'', x, y))"

definition calculateTimelinePath ::
  "timeline_entry list option \<Rightarrow> (char \<times> jsnum \<times> jsnum) list" where
  "calculateTimelinePath xpData =
     (case xpData of
        None \<Rightarrow> []
      | Some ds \<Rightarrow>
          if length ds = 0 then []
          else let maxXP = Math_max (map (\<lambda>d. js_int (tl_amount d)) ds)
               in map (timeline_command (length ds) maxXP) (enumerate 0 ds))"

section \<open>The profile view\<close>

subsection \<open>Darkening a colour\<close>

text \<open>
  \<^verbatim>\<open>darkenColor(color, percent) {
      const num = parseInt(color.replace('#', ''), 16);
      const amt = Math.round(2.55 * percent);
      const R = (num >> 16) - amt;
      const G = (num >> 8 & 0x00FF) - amt;
      const B = (num & 0x0000FF) - amt;
      return '#' + (0x1000000 + (R < 0 ? 0 : R) * 0x10000 + (G < 0 ? 0 : G) * 0x100
                    + (B < 0 ? 0 : B)).toString(16).slice(1); }\<close>

  \<^verbatim>\<open>parseInt(s, 16)\<close> reads the longest prefix of hexadecimal digits, in either case,
  and is \<^verbatim>\<open>NaN\<close> (here \<^term>\<open>None\<close>) when there is none; the white space, sign
  and \<^verbatim>\<open>0x\<close> it would skip do not occur in a colour. The shift and the mask
  first convert their operand to a signed 32-bit integer, \<^verbatim>\<open>NaN\<close> to 0.
  \<^verbatim>\<open>toString(16)\<close> prints lower-case digits without leading zeros, here for a
  number without a fraction. The literal \<^verbatim>\<open>2.55\<close> is the double nearest to 255/100,
  and every operation on numbers rounds.
\<close>

unbundle bit_operations_syntax

definition hex_digit :: "char \<Rightarrow> nat option" where
  "hex_digit c =
     (let n = (of_char c :: nat)
      in if 48 \<le> n \<and> n \<le> 57 then Some (n - 48)
         else if 97 \<le> n \<and> n \<le> 102 then Some (n - 87)
         else if 65 \<le> n \<and> n \<le> 70 then Some (n - 55)
         else None)"

fun parse_hex_digits :: "nat option \<Rightarrow> string \<Rightarrow> nat option" where
  "parse_hex_digits acc [] = acc"
| "parse_hex_digits acc (c # cs) =
     (case hex_digit c of
        None \<Rightarrow> acc
      | Some d \<Rightarrow> parse_hex_digits (Some (16 * (case acc of None \<Rightarrow> 0 | Some n \<Rightarrow> n) + d)) cs)"

definition parseInt16 :: "string \<Rightarrow> nat option" where
  "parseInt16 s = parse_hex_digits None s"

definition ToInt32 :: "nat option \<Rightarrow> int" where
  "ToInt32 x =
     (case x of
        None \<Rightarrow> 0
      | Some n \<Rightarrow> (let m = int n mod 2 ^ 32 in if 2 ^ 31 \<le> m then m - 2 ^ 32 else m))"

definition hex_char :: "nat \<Rightarrow> char" where
  "hex_char d = ''0123456789abcdef'' ! d"

fun toString16 :: "nat \<Rightarrow> string" where
  "toString16 n = (if n < 16 then [hex_char n] else toString16 (n div 16) @ [hex_char (n mod 16)])"

declare toString16.simps [simp del]

definition Number_toString16 :: "jsnum \<Rightarrow> string" where
  "Number_toString16 x =
     (case x of
        Fin v \<Rightarrow> if v < 0 then CHR ''-'' # toString16 (nat \<lfloor>- v\<rfloor>) else toString16 (nat \<lfloor>v\<rfloor>)
      | PosInf \<Rightarrow> ''Infinity''
      | NegInf \<Rightarrow> ''-Infinity''
      | NaN \<Rightarrow> ''NaN'')"

definition darkenColor :: "string \<Rightarrow> jsnum \<Rightarrow> string" where
  "darkenColor color percent =
     (let n = parseInt16 (remove1 CHR ''#'' color);
          amt = Math_round (js_mul (dbl (255 / 100)) percent);
          R = js_sub (js_int (drop_bit 16 (ToInt32 n))) amt;
          G = js_sub (js_int (drop_bit 8 (ToInt32 n) AND 255)) amt;
          B = js_sub (js_int (ToInt32 n AND 255)) amt
      in CHR ''#'' #
         drop 1 (Number_toString16
                   (js_add (js_add (js_add (Fin 16777216)
                                           (js_mul (if js_gt (Fin 0) R then Fin 0 else R) (Fin 65536)))
                                   (js_mul (if js_gt (Fin 0) G then Fin 0 else G) (Fin 256)))
                           (if js_gt (Fin 0) B then Fin 0 else B))))"

text \<open>
  The channels of a colour string, read the way \<^verbatim>\<open>darkenColor\<close> reads them.
\<close>

definition red :: "string \<Rightarrow> int" where
  "red color = drop_bit 16 (ToInt32 (parseInt16 (remove1 CHR ''#'' color)))"

definition green :: "string \<Rightarrow> int" where
  "green color = drop_bit 8 (ToInt32 (parseInt16 (remove1 CHR ''#'' color))) AND 255"

definition blue :: "string \<Rightarrow> int" where
  "blue color = ToInt32 (parseInt16 (remove1 CHR ''#'' color)) AND 255"

text \<open>A colour of the form \<^verbatim>\<open>#RRGGBB\<close>.\<close>

definition is_hex_color :: "string \<Rightarrow> bool" where
  "is_hex_color color =
     (case color of
        [] \<Rightarrow> False
      | c # ds \<Rightarrow> c = CHR ''#'' \<and> length ds = 6 \<and> list_all (\<lambda>d. hex_digit d \<noteq> None) ds)"

subsection \<open>The pie chart of XP by project\<close>

text \<open>
  \<^verbatim>\<open>path.includes(sub)\<close> and \<^verbatim>\<open>path.split(sep)\<close> for a non-empty separator.
\<close>

fun js_includes :: "string \<Rightarrow> string \<Rightarrow> bool" where
  "js_includes [] sub = (sub = [])"
| "js_includes (c # cs) sub = (take (length sub) (c # cs) = sub \<or> js_includes cs sub)"

fun split_from :: "string \<Rightarrow> string \<Rightarrow> string \<Rightarrow> string list" where
  "split_from sep cur [] = [cur]"
| "split_from sep cur (c # cs) =
     (if sep \<noteq> [] \<and> take (length sep) (c # cs) = sep
      then cur # split_from sep [] (drop (length sep - 1) cs)
      else split_from sep (cur @ [c]) cs)"

definition js_split :: "string \<Rightarrow> string \<Rightarrow> string list" where
  "js_split s sep = split_from sep [] s"

text \<open>
  \<^verbatim>\<open>.filter(([path, _]) => {
      if (!path || !path.includes('/bahrain/bh-module/')) { return false; }
      const parts = path.split('/bahrain/bh-module/');
      if (parts.length !== 2) return false;
      const afterModule = parts[1];
      return !afterModule.includes('/'); })
  .map(([path, amount]) => {
      const projectName = path.split('/bahrain/bh-module/')[1];
      return { project: projectName, amount: Math.round(amount / 1000), path: path }; })\<close>
\<close>

definition is_module_project :: "string \<times> int \<Rightarrow> bool" where
  "is_module_project entry =
     (let key = fst entry
      in if key = [] \<or> \<not> js_includes key ''/bahrain/bh-module/'' then False
         else let parts = js_split key ''/bahrain/bh-module/''
              in if length parts \<noteq> 2 then False
                 else \<not> js_includes (parts ! 1) ''/'')"

record project_xp =
  project :: string
  amount_kB :: int
  project_path :: string

definition to_project :: "string \<times> int \<Rightarrow> project_xp" where
  "to_project entry =
     (case entry of (key, bytes) \<Rightarrow>
        \<lparr> project = (case js_split key ''/bahrain/bh-module/'' of
                        _ # projectName # _ \<Rightarrow> projectName
                      | _ \<Rightarrow> []),
          amount_kB = round (dbl_val (real_of_int bytes / 1000)),
          project_path = key \<rparr>)"

definition colors :: "string list" where
  "colors =
     [''#3B82F6'', ''#60A5FA'', ''#2563EB'', ''#1D4ED8'', ''#3730A3'',
      ''#10B981'', ''#34D399'', ''#059669'', ''#047857'', ''#065F46'',
      ''#8B5CF6'', ''#A78BFA'', ''#7C3AED'', ''#6D28D9'', ''#5B21B6'',
      ''#EC4899'', ''#F472B6'', ''#DB2777'', ''#BE185D'', ''#9D174D'',
      ''#F59E0B'', ''#FBBF24'', ''#D97706'', ''#B45309'', ''#92400E'',
      ''#EF4444'', ''#F87171'', ''#DC2626'', ''#B91C1C'', ''#991B1B'',
      ''#14B8A6'', ''#2DD4BF'', ''#0D9488'', ''#0F766E'', ''#115E59'',
      ''#6366F1'', ''#818CF8'', ''#4F46E5'', ''#4338CA'', ''#3730A3'',
      ''#FBBF24'', ''#F59E0B'', ''#D97706'', ''#B45309'', ''#92400E'',
      ''#84CC16'', ''#A3E635'', ''#65A30D'', ''#4D7C0F'', ''#3F6212'',
      ''#06B6D4'', ''#22D3EE'', ''#0891B2'', ''#0E7490'', ''#155E75'',
      ''#6B7280'', ''#9CA3AF'', ''#4B5563'', ''#374151'', ''#1F2937'',
      ''#8B5CF6'', ''#EC4899'', ''#10B981'', ''#3B82F6'', ''#F59E0B'']"

text \<open>
  One slice of the donut: the annular wedge and, when the share is above 3 per cent, the
  label at mid-angle. The angles and the eight coordinates are local variables of the
  loop; they are kept with the slice, beside the path data (the attribute \<^verbatim>\<open>d\<close>) that is
  printed from them: a move, a line, the outer arc (radii, rotation, large-arc flag,
  sweep flag, end point), a line, the inner arc, and the closing of the path.
  \<^verbatim>\<open>let startAngle = -Math.PI / 2;
  projectXP.forEach((project, i) => {
      const percentage = project.amount / totalXP;
      const angleSize = percentage * Math.PI * 2;
      const endAngle = startAngle + angleSize;
      const x1 = centerX + innerRadius * Math.cos(startAngle);  ...
      const largeArcFlag = angleSize > Math.PI ? 1 : 0;
      path.setAttribute('d', `M x1 y1 L x2 y2 A r r 0 flag 1 x3 y3 L x4 y4 A ir ir 0 flag 0 x1 y1 Z`);
      path.setAttribute('fill', `url(#pie-gradient-${i % colors.length})`);
      path.setAttribute('data-percentage', Math.round(percentage * 100));
      svg.appendChild(path);
      if (percentage > 0.03) {
          const labelAngle = startAngle + angleSize / 2;
          const labelRadius = innerRadius + (radius - innerRadius) / 2;
          ... percentText.textContent = `${Math.round(percentage * 100)}%`;
          svg.appendChild(percentText); }
      startAngle = endAngle; });\<close>
\<close>

datatype path_command =
    MoveTo jsnum jsnum
  | LineTo jsnum jsnum
  | ArcTo jsnum jsnum nat nat nat jsnum jsnum
  | ClosePath

record arc_path =
  path_data :: "path_command list"
  x1 :: jsnum
  y1 :: jsnum
  x2 :: jsnum
  y2 :: jsnum
  x3 :: jsnum
  y3 :: jsnum
  x4 :: jsnum
  y4 :: jsnum
  largeArcFlag :: nat
  fill :: nat
  data_project :: string
  data_amount :: int
  data_percentage :: jsnum

record percent_label =
  labelX :: jsnum
  labelY :: jsnum
  label_percent :: jsnum

record slice =
  startAngle :: jsnum
  angleSize :: jsnum
  endAngle :: jsnum
  percentage :: jsnum
  arc :: arc_path
  label :: "percent_label option"

definition centerX :: jsnum where "centerX = Fin 500"
definition centerY :: jsnum where "centerY = js_add (Fin 60) (js_div (Fin 500) (Fin 2))"
definition radius :: jsnum where "radius = Fin 220"
definition innerRadius :: jsnum where "innerRadius = Fin 90"

definition polar_x :: "js_engine \<Rightarrow> jsnum \<Rightarrow> jsnum \<Rightarrow> jsnum" where
  "polar_x E r angle = js_add centerX (js_mul r (Math_cos E angle))"

definition polar_y :: "js_engine \<Rightarrow> jsnum \<Rightarrow> jsnum \<Rightarrow> jsnum" where
  "polar_y E r angle = js_add centerY (js_mul r (Math_sin E angle))"

definition draw_slice :: "js_engine \<Rightarrow> jsnum \<Rightarrow> nat \<Rightarrow> jsnum \<Rightarrow> project_xp \<Rightarrow> slice" where
  "draw_slice E totalXP i start p =
     (let pct = js_div (js_int (amount_kB p)) totalXP;
          span = js_mul (js_mul pct Math_PI) (Fin 2);
          stop = js_add start span;
          px1 = polar_x E innerRadius start; py1 = polar_y E innerRadius start;
          px2 = polar_x E radius start; py2 = polar_y E radius start;
          px3 = polar_x E radius stop; py3 = polar_y E radius stop;
          px4 = polar_x E innerRadius stop; py4 = polar_y E innerRadius stop;
          flag = (if js_gt span Math_PI then 1 else 0);
          labelAngle = js_add start (js_div span (Fin 2));
          labelRadius = js_add innerRadius (js_div (js_sub radius innerRadius) (Fin 2))
      in \<lparr> startAngle = start,
           angleSize = span,
           endAngle = stop,
           percentage = pct,
           arc = \<lparr> path_data = [MoveTo px1 py1, LineTo px2 py2,
                        ArcTo radius radius 0 flag 1 px3 py3,
                        LineTo px4 py4,
                        ArcTo innerRadius innerRadius 0 flag 0 px1 py1,
                        ClosePath],
                   x1 = px1, y1 = py1, x2 = px2, y2 = py2,
                   x3 = px3, y3 = py3, x4 = px4, y4 = py4,
                   largeArcFlag = flag,
                   fill = i mod length colors,
                   data_project = project p,
                   data_amount = amount_kB p,
                   data_percentage = Math_round (js_mul pct (Fin 100)) \<rparr>,
           label = (if js_gt pct (dbl (3 / 100))
                    then Some \<lparr> labelX = polar_x E labelRadius labelAngle,
                                labelY = polar_y E labelRadius labelAngle,
                                label_percent = Math_round (js_mul pct (Fin 100)) \<rparr>
                    else None) \<rparr>)"

fun draw_slices_from ::
  "js_engine \<Rightarrow> jsnum \<Rightarrow> nat \<Rightarrow> jsnum \<Rightarrow> project_xp list \<Rightarrow> slice list" where
  "draw_slices_from E totalXP i start [] = []"
| "draw_slices_from E totalXP i start (p # ps) =
     draw_slice E totalXP i start p
       # draw_slices_from E totalXP (Suc i) (endAngle (draw_slice E totalXP i start p)) ps"

text \<open>
  \<^verbatim>\<open>const totalXP = projectXP.reduce((sum, project) => sum + project.amount, 0);\<close>
  and the loop, started at \<^verbatim>\<open>-Math.PI / 2\<close>.
\<close>

definition total_kB :: "project_xp list \<Rightarrow> jsnum" where
  "total_kB projectXP = foldl (\<lambda>sum p. js_add sum (js_int (amount_kB p))) (Fin 0) projectXP"

definition draw_slices :: "js_engine \<Rightarrow> project_xp list \<Rightarrow> slice list" where
  "draw_slices E projectXP =
     draw_slices_from E (total_kB projectXP) 0 (js_div (js_neg Math_PI) (Fin 2)) projectXP"

text \<open>
  The legend: entry \<open>i\<close> goes to the left column when \<open>i\<close> is even, and to row
  \<open>\<lfloor>i/2\<rfloor>\<close>. One item stands for the rectangle, the name and the percentage text.
\<close>

record legend_item =
  rectX :: int
  rectY :: int
  legend_fill :: nat
  legend_name :: string
  legend_percent :: jsnum
  legend_amount :: int

definition legend_entry :: "jsnum \<Rightarrow> int \<Rightarrow> nat \<times> project_xp \<Rightarrow> legend_item" where
  "legend_entry totalXP legendStartY ip =
     (case ip of (i, p) \<Rightarrow>
        \<lparr> rectX = (if i mod 2 = 0 then 50 else 50 + 450 + 10),
          rectY = legendStartY + int (i div 2) * (40 + 10),
          legend_fill = i mod length colors,
          legend_name = project p,
          legend_percent =
            Math_round (js_mul (js_div (js_int (amount_kB p)) totalXP) (Fin 100)),
          legend_amount = amount_kB p \<rparr>)"

datatype svg_element =
    TitleText string
  | Defs "(string \<times> string) list"
  | ArcPath arc_path
  | SlicePercentText percent_label
  | CenterCircle jsnum jsnum jsnum
  | TotalText
  | TotalValue jsnum
  | Tooltip
  | ProjectsTitle int
  | LegendItem legend_item

datatype container_content =
    Message string
  | Svg int "svg_element list"

definition slice_elements :: "slice \<Rightarrow> svg_element list" where
  "slice_elements s =
     ArcPath (arc s) # (case label s of None \<Rightarrow> [] | Some l \<Rightarrow> [SlicePercentText l])"

text \<open>
  \<^verbatim>\<open>renderProjectPieChart(xpByPath)\<close>, for a dictionary from paths to integers:
  nothing happens without the container; an empty selection shows the message; otherwise
  the SVG is built, with a height that grows with the number of legend rows.
\<close>

definition renderProjectPieChart ::
  "js_engine \<Rightarrow> bool \<Rightarrow> int js_object \<Rightarrow> container_content option" where
  "renderProjectPieChart E container xpByPath_arg =
     (if \<not> container then None
      else let projectXP = map to_project (filter is_module_project xpByPath_arg)
           in if length projectXP = 0
              then Some (Message ''No XP data available for Bahrain module projects'')
              else let sorted_projects = sort_key (\<lambda>p. - amount_kB p) projectXP;
                       totalXP = total_kB sorted_projects;
                       rowsNeeded = (int (length sorted_projects) + 1) div 2;
                       legendStartY = 60 + 500;
                       totalHeight = legendStartY + rowsNeeded * (40 + 10) + 30
                   in Some (Svg totalHeight
                        ([TitleText ''Project XP Distribution'',
                          Defs (map (\<lambda>color. (color, darkenColor color (Fin 20))) colors)]
                         @ concat (map slice_elements (draw_slices E sorted_projects))
                         @ [CenterCircle centerX centerY innerRadius,
                            TotalText, TotalValue totalXP, Tooltip,
                            ProjectsTitle (legendStartY - 10)]
                         @ map (\<lambda>ip. LegendItem (legend_entry totalXP legendStartY ip))
                               (enumerate 0 sorted_projects))))"

section \<open>Observations and sample data\<close>

text \<open>The arc paths of what \<^verbatim>\<open>renderProjectPieChart\<close> put into the container.\<close>

fun arc_paths :: "container_content option \<Rightarrow> arc_path list" where
  "arc_paths (Some (Svg h els)) =
     concat (map (\<lambda>e. case e of ArcPath a \<Rightarrow> [a] | _ \<Rightarrow> []) els)"
| "arc_paths _ = []"

text \<open>
  The numeral of \<open>m\<close> in exactly \<open>k\<close> hexadecimal digits, with leading zeros: what
  \<^verbatim>\<open>toString(16)\<close> prints below a leading digit.
\<close>

fun hex_fixed :: "nat \<Rightarrow> nat \<Rightarrow> string" where
  "hex_fixed 0 m = []"
| "hex_fixed (Suc k) m = hex_fixed k (m div 16) @ [hex_char (m mod 16)]"

text \<open>
  The sum of the values of a dictionary, which is a number when all of them are numbers.
\<close>

fun values_sum_from :: "int \<Rightarrow> jsval list \<Rightarrow> int option" where
  "values_sum_from s [] = Some s"
| "values_sum_from s (Num n # vs) = values_sum_from (s + n) vs"
| "values_sum_from s (Text _ # vs) = None"

definition values_sum :: "jsval js_object \<Rightarrow> int option" where
  "values_sum obj = values_sum_from 0 (object_values obj)"

text \<open>The value of a finite number.\<close>

fun fin_val :: "jsnum \<Rightarrow> real" where
  "fin_val (Fin a) = a"
| "fin_val _ = 0"

text \<open>An engine whose cosine and sine are the nearest doubles to the exact ones.\<close>

definition exact_engine :: js_engine where
  "exact_engine = \<lparr> cos_impl = cos, sin_impl = sin \<rparr>"

text \<open>Concrete records, used where a statement is evaluated on an input.\<close>

definition tx :: "string \<Rightarrow> int \<Rightarrow> string \<Rightarrow> transaction" where
  "tx ty a p = \<lparr> type = ty, amount = a, createdAt = ''2024-01-01T00:00:00Z'',
                 path = Some p, originEventId = 20 \<rparr>"

definition pt :: "int \<Rightarrow> timeline_entry" where
  "pt a = \<lparr> tl_date = ''2024-01-01T00:00:00Z'', tl_amount = a, tl_originEventId = 20 \<rparr>"

definition proj :: "string \<Rightarrow> int \<Rightarrow> project_xp" where
  "proj name kB = \<lparr> project = name, amount_kB = kB, project_path = ''/bahrain/bh-module/'' @ name \<rparr>"

definition sample_user :: raw_user where
  "sample_user =
     \<lparr> raw_login = ''jdoe'', raw_email = ''jdoe@example.org'', raw_firstName = ''Jane'',
       raw_lastName = ''Doe'', raw_campus = ''Bahrain'', raw_totalUp = Some 300,
       raw_totalDown = Some 150, raw_auditRatio = Some 2, raw_xps = Some [],
       raw_transactions = Some [tx ''xp'' 50 ''/a/b'', tx ''level'' 5 ''/a''],
       raw_audits = Some [], raw_progressesByPath = Some [] \<rparr>"

section \<open>Properties of the rounding to doubles\<close>

lemma powi_add2: "(2::real) powi (a + b) = 2 powi a * 2 powi b"
  by (simp add: power_int_add)

lemma powi_succ: "(2::real) powi (e + 1) = 2 * 2 powi e"
  by (simp add: power_int_add)

lemma powi_mono2: "a \<le> b \<Longrightarrow> (2::real) powi a \<le> 2 powi b"
  by (rule power_int_increasing) simp_all

lemma exponent_up_spec:
  assumes "2 powi e \<le> x"
  shows "2 powi (exponent_up n e x) \<le> x \<and>
         (x < 2 powi (exponent_up n e x + 1) \<or> exponent_up n e x = e + int n) \<and>
         e \<le> exponent_up n e x \<and> exponent_up n e x \<le> e + int n"
  using assms
proof (induction n arbitrary: e)
  case 0
  then show ?case by (simp add: exponent_up.simps)
next
  case (Suc n)
  show ?case
  proof (cases "2 powi (e + 1) \<le> x")
    case True
    have u: "exponent_up (Suc n) e x = exponent_up n (e + 1) x"
      using True by (subst exponent_up.simps) simp
    from Suc.IH[OF True] show ?thesis unfolding u by auto
  next
    case False
    have u: "exponent_up (Suc n) e x = e"
      using False by (subst exponent_up.simps) simp
    show ?thesis unfolding u using False Suc.prems by auto
  qed
qed

lemma exponent_down_spec:
  assumes "x < 2 powi (e + 1)"
  shows "x < 2 powi (exponent_down n e x + 1) \<and>
         (2 powi (exponent_down n e x) \<le> x \<or> exponent_down n e x = e - int n) \<and>
         e - int n \<le> exponent_down n e x \<and> exponent_down n e x \<le> e"
  using assms
proof (induction n arbitrary: e)
  case 0
  then show ?case by (simp add: exponent_down.simps)
next
  case (Suc n)
  show ?case
  proof (cases "x < 2 powi e")
    case True
    have u: "exponent_down (Suc n) e x = exponent_down n (e - 1) x"
      using True by (subst exponent_down.simps) simp
    from True have "x < 2 powi (e - 1 + 1)" by simp
    from Suc.IH[OF this] show ?thesis unfolding u by auto
  next
    case False
    have u: "exponent_down (Suc n) e x = e"
      using False by (subst exponent_down.simps) simp
    show ?thesis unfolding u using False Suc.prems by auto
  qed
qed

lemma exponent_range: "- 1022 \<le> exponent x \<and> exponent x \<le> 1024"
proof (cases "1 \<le> x")
  case True
  hence "2 powi 0 \<le> x" by simp
  from exponent_up_spec[OF this, of 1024] True show ?thesis by (simp add: exponent_def)
next
  case False
  hence "x < 2 powi (- 1 + 1)" by simp
  from exponent_down_spec[OF this, of 1021] False show ?thesis by (simp add: exponent_def)
qed

lemma exponent_lower: "2 powi (exponent x) \<le> x \<or> exponent x = - 1022"
proof (cases "1 \<le> x")
  case True
  hence "2 powi 0 \<le> x" by simp
  from exponent_up_spec[OF this, of 1024] True show ?thesis by (simp add: exponent_def)
next
  case False
  hence "x < 2 powi (- 1 + 1)" by simp
  from exponent_down_spec[OF this, of 1021] False show ?thesis by (simp add: exponent_def)
qed

lemma exponent_upper: "x < 2 powi (exponent x + 1) \<or> exponent x = 1024"
proof (cases "1 \<le> x")
  case True
  hence "2 powi 0 \<le> x" by simp
  from exponent_up_spec[OF this, of 1024] True show ?thesis by (simp add: exponent_def)
next
  case False
  hence "x < 2 powi (- 1 + 1)" by simp
  from exponent_down_spec[OF this, of 1021] False show ?thesis by (simp add: exponent_def)
qed

lemma exponent_normal:
  assumes "2 powi (- 1022) \<le> x"
  shows "2 powi (exponent x) \<le> x"
  using exponent_lower[of x] assms by auto

lemma exponent_mono:
  assumes "0 < x" "x \<le> y"
  shows "exponent x \<le> exponent y"
proof (rule ccontr)
  assume "\<not> exponent x \<le> exponent y"
  hence lt: "exponent y < exponent x" by simp
  with exponent_range[of y] have "exponent x \<noteq> - 1022" by linarith
  with exponent_lower[of x] have lo: "2 powi (exponent x) \<le> x" by simp
  from lt exponent_range[of x] have "exponent y \<noteq> 1024" by linarith
  with exponent_upper[of y] have "y < 2 powi (exponent y + 1)" by simp
  also have "\<dots> \<le> 2 powi (exponent x)" using lt by (intro powi_mono2) simp
  finally show False using lo assms(2) by simp
qed

lemma round_even_error: "\<bar>of_int (round_even y) - y\<bar> \<le> 1 / 2"
proof -
  have "of_int \<lfloor>y\<rfloor> \<le> y" "y < of_int \<lfloor>y\<rfloor> + 1" by linarith+
  thus ?thesis by (auto simp: round_even_def Let_def)
qed

lemma round_even_of_int [simp]: "round_even (of_int n) = n"
  by (simp add: round_even_def)

lemma round_even_mono:
  assumes "y \<le> z"
  shows "round_even y \<le> round_even z"
proof (cases "\<lfloor>y\<rfloor> = \<lfloor>z\<rfloor>")
  case True
  with assms show ?thesis by (auto simp: round_even_def Let_def)
next
  case False
  with assms have "\<lfloor>y\<rfloor> < \<lfloor>z\<rfloor>" using floor_mono[OF assms] by linarith
  hence "\<lfloor>y\<rfloor> + 1 \<le> \<lfloor>z\<rfloor>" by simp
  moreover have "round_even y \<le> \<lfloor>y\<rfloor> + 1" by (auto simp: round_even_def Let_def)
  moreover have "\<lfloor>z\<rfloor> \<le> round_even z" by (auto simp: round_even_def Let_def)
  ultimately show ?thesis by linarith
qed

lemma quantum_pos [simp]: "0 < quantum x"
  by (simp add: quantum_def)

lemma quantum_nonneg [simp]: "0 \<le> quantum x"
  using quantum_pos[of x] by (rule less_imp_le)

lemma quantum_neq0 [simp]: "quantum x \<noteq> 0"
  by (simp add: quantum_def)

lemma dbl_val_minus: "dbl_val (- x) = - dbl_val x"
  by (simp add: dbl_val_def quantum_def sgn_minus)

lemma dbl_val_pos:
  assumes "0 < x"
  shows "dbl_val x = of_int (round_even (x / quantum x)) * quantum x"
  using assms by (simp add: dbl_val_def)

lemma dbl_val_nonneg: "0 \<le> x \<Longrightarrow> 0 \<le> dbl_val x"
proof -
  assume x: "0 \<le> x"
  have "round_even 0 \<le> round_even (x / quantum x)"
    using x by (intro round_even_mono) simp
  hence "0 \<le> round_even (x / quantum x)" using round_even_of_int[of 0] by simp
  thus ?thesis using x by (cases "x = 0") (simp_all add: dbl_val_def sgn_if)
qed

lemma dbl_val_abs_error: "\<bar>dbl_val x - x\<bar> \<le> quantum x / 2"
proof (cases "x = 0")
  case True
  then show ?thesis by (simp add: dbl_val_def)
next
  case False
  let ?q = "quantum x"
  let ?m = "round_even (\<bar>x\<bar> / ?q)"
  have "\<bar>of_int ?m - \<bar>x\<bar> / ?q\<bar> \<le> 1 / 2" by (rule round_even_error)
  hence "\<bar>of_int ?m - \<bar>x\<bar> / ?q\<bar> * ?q \<le> 1 / 2 * ?q"
    by (intro mult_right_mono) simp_all
  hence "\<bar>(of_int ?m - \<bar>x\<bar> / ?q) * ?q\<bar> \<le> ?q / 2"
    by (simp add: abs_mult)
  hence e: "\<bar>of_int ?m * ?q - \<bar>x\<bar>\<bar> \<le> ?q / 2"
    by (simp add: left_diff_distrib)
  have "dbl_val x - x = sgn x * (of_int ?m * ?q - \<bar>x\<bar>)"
    using False by (simp add: dbl_val_def right_diff_distrib sgn_if)
  hence "\<bar>dbl_val x - x\<bar> = \<bar>of_int ?m * ?q - \<bar>x\<bar>\<bar>"
    using False by (simp add: abs_mult sgn_if)
  thus ?thesis using e by simp
qed

lemma dbl_val_rel_error:
  assumes "2 powi (- 1022) \<le> \<bar>x\<bar>"
  shows "\<bar>dbl_val x - x\<bar> \<le> 2 powi (- 53) * \<bar>x\<bar>"
proof -
  have "quantum x / 2 = 2 powi (- 53) * 2 powi (exponent \<bar>x\<bar>)"
    unfolding quantum_def by (simp add: power_int_diff power_int_minus)
  also have "\<dots> \<le> 2 powi (- 53) * \<bar>x\<bar>"
    using exponent_normal[OF assms] by (intro mult_left_mono) simp_all
  finally show ?thesis using dbl_val_abs_error[of x] by linarith
qed

lemma dbl_val_mono_pos:
  assumes "0 < x" "x \<le> y"
  shows "dbl_val x \<le> dbl_val y"
proof -
  have y: "0 < y" using assms by simp
  let ?cx = "exponent x" and ?cy = "exponent y"
  have le: "?cx \<le> ?cy" using exponent_mono[OF assms] .
  have qx: "quantum x = 2 powi (?cx - 52)" using assms(1) by (simp add: quantum_def)
  have qy: "quantum y = 2 powi (?cy - 52)" using y by (simp add: quantum_def)
  show ?thesis
  proof (cases "?cx = ?cy")
    case True
    hence q: "quantum x = quantum y" by (simp add: qx qy)
    have "x / quantum y \<le> y / quantum y"
      using assms(2) by (intro divide_right_mono) simp_all
    hence "round_even (x / quantum y) \<le> round_even (y / quantum y)"
      by (rule round_even_mono)
    hence "of_int (round_even (x / quantum y)) * quantum y
             \<le> of_int (round_even (y / quantum y)) * quantum y"
      by (intro mult_right_mono) simp_all
    thus ?thesis unfolding dbl_val_pos[OF assms(1)] dbl_val_pos[OF y] q .
  next
    case False
    with le have lt: "?cx < ?cy" by simp
    with exponent_range[of y] have "?cx \<noteq> 1024" by linarith
    with exponent_upper[of x] have "x < 2 powi (?cx + 1)" by simp
    hence "x / quantum x \<le> 2 powi (?cx + 1) / quantum x"
      by (intro divide_right_mono) simp_all
    also have "2 powi (?cx + 1) / quantum x = of_int (2 ^ 53)"
      unfolding qx by (simp add: power_int_diff power_int_add)
    finally have "round_even (x / quantum x) \<le> round_even (of_int (2 ^ 53))"
      by (rule round_even_mono)
    hence "of_int (round_even (x / quantum x)) \<le> (2 ^ 53 :: real)"
      unfolding round_even_of_int by (metis of_int_le_iff of_int_numeral of_int_power)
    hence "of_int (round_even (x / quantum x)) * quantum x \<le> 2 ^ 53 * quantum x"
      by (intro mult_right_mono) simp_all
    also have "2 ^ 53 * quantum x = 2 powi (?cx + 1)"
      unfolding qx by (simp add: power_int_diff power_int_add)
    also have "\<dots> \<le> 2 powi ?cy" using lt by (intro powi_mono2) simp
    finally have up: "dbl_val x \<le> 2 powi ?cy" unfolding dbl_val_pos[OF assms(1)] .
    from lt exponent_range[of x] have "?cy \<noteq> - 1022" by linarith
    with exponent_lower[of y] have "2 powi ?cy \<le> y" by simp
    hence "2 powi ?cy / quantum y \<le> y / quantum y"
      by (intro divide_right_mono) simp_all
    moreover have "2 powi ?cy / quantum y = of_int (2 ^ 52)"
      unfolding qy by (simp add: power_int_diff)
    ultimately have "round_even (of_int (2 ^ 52)) \<le> round_even (y / quantum y)"
      by (intro round_even_mono) simp
    hence m: "(2 ^ 52 :: real) \<le> of_int (round_even (y / quantum y))"
      unfolding round_even_of_int by (metis of_int_le_iff of_int_numeral of_int_power)
    have "2 powi ?cy = 2 ^ 52 * quantum y"
      unfolding qy by (simp add: power_int_diff)
    also have "\<dots> \<le> of_int (round_even (y / quantum y)) * quantum y"
      using m by (intro mult_right_mono) simp_all
    finally have "2 powi ?cy \<le> dbl_val y" unfolding dbl_val_pos[OF y] .
    with up show ?thesis by simp
  qed
qed

lemma dbl_val_mono:
  assumes "x \<le> y"
  shows "dbl_val x \<le> dbl_val y"
proof -
  consider "0 < x" | "y < 0" | "x \<le> 0" "0 \<le> y" by linarith
  then show ?thesis
  proof cases
    case 1
    then show ?thesis using assms by (rule dbl_val_mono_pos)
  next
    case 2
    hence "0 < - y" "- y \<le> - x" using assms by simp_all
    hence "dbl_val (- y) \<le> dbl_val (- x)" by (rule dbl_val_mono_pos)
    thus ?thesis by (simp add: dbl_val_minus)
  next
    case 3
    have "0 \<le> dbl_val y" using 3(2) by (rule dbl_val_nonneg)
    moreover have "0 \<le> dbl_val (- x)" using 3(1) by (intro dbl_val_nonneg) simp
    ultimately show ?thesis by (simp add: dbl_val_minus)
  qed
qed

lemma dbl_val_of_int:
  assumes "\<bar>n\<bar> \<le> 2 ^ 53"
  shows "dbl_val (of_int n) = of_int n"
proof (cases "n = 0")
  case True
  then show ?thesis by (simp add: dbl_val_def)
next
  case False
  let ?x = "real_of_int \<bar>n\<bar>"
  let ?c = "exponent ?x"
  have x1: "1 \<le> ?x" using False by linarith
  have xu: "?x \<le> 2 ^ 53" using assms by (metis of_int_le_iff of_int_numeral of_int_power)
  have "2 powi (- 1022) \<le> (1::real)" by (simp add: power_int_minus field_simps)
  hence "2 powi ?c \<le> ?x" using x1 by (intro exponent_normal) linarith
  hence "2 powi ?c \<le> (2::real) powi 53" using xu by simp
  hence c53: "?c \<le> 53" by (rule power_int_le_imp_le_exp[rotated]) simp_all
  have c0: "0 \<le> ?c"
  proof -
    have "2 powi 0 \<le> ?x" using x1 by simp
    from exponent_up_spec[OF this, of 1024] x1 show ?thesis by (simp add: exponent_def)
  qed
  have q: "quantum (of_int n) = 2 powi (?c - 52)" by (simp add: quantum_def)
  have "\<exists>k. ?x / 2 powi (?c - 52) = of_int k"
  proof (cases "?c \<le> 52")
    case True
    have "?x / 2 powi (?c - 52) = ?x * 2 powi (52 - ?c)"
      by (simp add: power_int_diff field_simps)
    also have "2 powi (52 - ?c) = (2::real) ^ nat (52 - ?c)"
      using True by (simp add: power_int_nonneg_exp)
    finally have "?x / 2 powi (?c - 52) = of_int (\<bar>n\<bar> * 2 ^ nat (52 - ?c))" by simp
    thus ?thesis by blast
  next
    case False
    with c53 have c: "?c = 53" by simp
    have "2 powi 53 \<le> ?x" using \<open>2 powi ?c \<le> ?x\<close> unfolding c .
    with xu have "?x = 2 ^ 53" by simp
    hence "?x / 2 powi (?c - 52) = of_int (2 ^ 52)" unfolding c by simp
    thus ?thesis by blast
  qed
  then obtain k where k: "?x / 2 powi (?c - 52) = of_int k" by blast
  have "\<bar>real_of_int n\<bar> = ?x" by simp
  hence "dbl_val (of_int n) = sgn (real_of_int n) * (of_int (round_even (?x / 2 powi (?c - 52))) * 2 powi (?c - 52))"
    using False by (simp add: dbl_val_def q)
  also have "\<dots> = sgn (real_of_int n) * (?x / 2 powi (?c - 52) * 2 powi (?c - 52))"
    unfolding k round_even_of_int ..
  also have "\<dots> = sgn (real_of_int n) * ?x" by simp
  also have "\<dots> = of_int n" by (simp add: sgn_if)
  finally show ?thesis .
qed

lemma exponent_le:
  assumes "x < 2 powi (e + 1)" "- 1022 \<le> e"
  shows "exponent x \<le> e"
proof (rule ccontr)
  assume "\<not> exponent x \<le> e"
  hence lt: "e + 1 \<le> exponent x" by simp
  with assms(2) have "exponent x \<noteq> - 1022" by simp
  with exponent_lower[of x] have "2 powi (exponent x) \<le> x" by simp
  moreover have "(2::real) powi (e + 1) \<le> 2 powi (exponent x)" using lt by (rule powi_mono2)
  ultimately show False using assms(1) by simp
qed

lemma dbl_val_error_bound:
  assumes "\<bar>x\<bar> < 2 powi (e + 1)" "- 1022 \<le> e"
  shows "\<bar>dbl_val x - x\<bar> \<le> 2 powi (e - 53)"
proof -
  have "exponent \<bar>x\<bar> \<le> e" using assms by (rule exponent_le)
  hence "quantum x \<le> 2 powi (e - 52)" unfolding quantum_def by (intro powi_mono2) simp
  hence "quantum x / 2 \<le> 2 powi (e - 52) / 2" by simp
  also have "2 powi (e - 52) / 2 = (2::real) powi (e - 53)"
    by (simp add: power_int_diff)
  finally show ?thesis using dbl_val_abs_error[of x] by linarith
qed

lemma dbl_val_bounds:
  assumes "0 \<le> x" "x = 0 \<or> 2 powi (- 1022) \<le> x"
  shows "x * (1 - 2 powi (- 53)) \<le> dbl_val x \<and> dbl_val x \<le> x * (1 + 2 powi (- 53))"
proof (cases "x = 0")
  case True
  then show ?thesis by (simp add: dbl_val_def)
next
  case False
  with assms have "2 powi (- 1022) \<le> \<bar>x\<bar>" by simp
  from dbl_val_rel_error[OF this] assms(1)
  have "\<bar>dbl_val x - x\<bar> \<le> 2 powi (- 53) * x" by simp
  hence "dbl_val x - x \<le> 2 powi (- 53) * x" "x - dbl_val x \<le> 2 powi (- 53) * x"
    by linarith+
  thus ?thesis by (simp add: algebra_simps)
qed

lemma dbl_small:
  assumes "\<bar>x\<bar> \<le> 2 ^ 53"
  shows "dbl x = Fin (dbl_val x)"
proof -
  have e: "dbl_val (2 ^ 53) = 2 ^ 53"
    using dbl_val_of_int[of "2 ^ 53"] by simp
  have "dbl_val x \<le> dbl_val (2 ^ 53)" using assms by (intro dbl_val_mono) simp
  moreover have "dbl_val (- (2 ^ 53)) \<le> dbl_val x" using assms by (intro dbl_val_mono) simp
  ultimately have "\<bar>dbl_val x\<bar> \<le> 2 ^ 53" using e by (simp add: dbl_val_minus abs_le_iff)
  moreover have "(2::real) ^ 53 < 2 ^ 1024" by simp
  ultimately have "\<not> 2 ^ 1024 \<le> \<bar>dbl_val x\<bar>" by linarith
  thus ?thesis by (simp add: dbl_def Let_def)
qed

lemma dbl_of_int:
  assumes "\<bar>n\<bar> \<le> 2 ^ 53"
  shows "dbl (of_int n) = Fin (of_int n)"
proof -
  have "\<bar>real_of_int n\<bar> \<le> 2 ^ 53"
    using assms by (metis of_int_abs of_int_le_iff of_int_numeral of_int_power)
  thus ?thesis using dbl_val_of_int[OF assms] by (simp add: dbl_small)
qed

lemma js_int_small: "\<bar>n\<bar> \<le> 2 ^ 53 \<Longrightarrow> js_int n = Fin (of_int n)"
  by (simp add: js_int_def dbl_of_int)

lemma dbl_zero [simp]: "dbl 0 = Fin 0"
  using dbl_of_int[of 0] by simp

lemma dbl_one [simp]: "dbl 1 = Fin 1"
  using dbl_of_int[of 1] by simp

lemma dbl_numeral [simp]:
  "numeral k \<le> (2 ^ 53 :: int) \<Longrightarrow> dbl (numeral k) = Fin (numeral k)"
  using dbl_of_int[of "numeral k"] by simp

lemma dbl_neg_numeral [simp]:
  "numeral k \<le> (2 ^ 53 :: int) \<Longrightarrow> dbl (- numeral k) = Fin (- numeral k)"
  using dbl_of_int[of "- numeral k"] by simp

lemma js_int_zero [simp]: "js_int 0 = Fin 0"
  by (simp add: js_int_def)

lemma js_int_numeral [simp]:
  "numeral k \<le> (2 ^ 53 :: int) \<Longrightarrow> js_int (numeral k) = Fin (numeral k)"
  by (simp add: js_int_def)

lemmas dbl_eval = dbl_def dbl_val_def quantum_def exponent_def exponent_up.simps
  exponent_down.simps round_even_def Let_def

lemma dbl_half: "dbl (1 / 2) = Fin (1 / 2)"
  by (simp add: dbl_eval)

section \<open>Properties of the aggregation\<close>






lemma values_sum_Cons_Text: "values_sum ((k, Text x) # obj) = None"
  by (simp add: values_sum_def object_values_def)





lemma foldl_add_amount:
  "foldl (\<lambda>sum t. sum + amount t) s ts = s + sum_list (map amount ts)"
  by (induction ts arbitrary: s) simp_all



text \<open>
  Under the name of an inherited function the value is not a number either: the amounts
  are appended to the text of the function.
\<close>

lemma xpByPath_inherited_function_example:
  "groupXPByPath [tx ''xp'' 50 ''constructor'', tx ''xp'' 7 ''constructor''] =
     [(''constructor'', Text (Appended (Appended (Function_text ''constructor'') 50) 7))] \<and>
   values_sum (groupXPByPath [tx ''xp'' 50 ''constructor'', tx ''xp'' 7 ''constructor'']) = None"
  by (simp add: groupXPByPath_def groupXPByPath_step_def path_or_unknown_def tx_def
        object_prototype_functions_def values_sum_Cons_Text Let_def)



text \<open>The aggregation on the transactions of a small profile.\<close>

lemma aggregation_scenario:
  "calculateTotalXP [tx ''xp'' 50 ''/a/b'', tx ''xp'' 30 ''/a/c'', tx ''level'' 5 ''/a''] = 80 \<and>
   groupXPByPath [tx ''xp'' 50 ''/a/b'', tx ''xp'' 30 ''/a/c'', tx ''level'' 5 ''/a'']
     = [(''/a/b'', Num 50), (''/a/c'', Num 30)] \<and>
   getCurrentLevel [tx ''xp'' 50 ''/a/b'', tx ''xp'' 30 ''/a/c'', tx ''level'' 5 ''/a''] = 5 \<and>
   map tl_amount (createTimeline [tx ''xp'' 50 ''/a/b'', tx ''xp'' 30 ''/a/c'', tx ''level'' 5 ''/a''])
     = [50, 30]"
  by (simp add: calculateTotalXP_def groupXPByPath_def groupXPByPath_step_def path_or_unknown_def
        getCurrentLevel_def createTimeline_def tx_def object_prototype_functions_def)

subsection \<open>The current level\<close>

lemma sort_key_desc_head:
  fixes xs :: "transaction list"
  assumes "xs \<noteq> []"
  shows "\<exists>y ys. sort_key (\<lambda>t. - amount t) xs = y # ys \<and> amount y = Max (amount ` set xs)"
proof -
  let ?f = "\<lambda>t::transaction. - amount t"
  let ?s = "sort_key ?f xs"
  have "length ?s = length xs" by simp
  with assms have "?s \<noteq> []" by (metis length_0_conv)
  then obtain y ys where s: "?s = y # ys" by (cases ?s) auto
  have "sorted (map ?f ?s)" by (rule sorted_sort_key)
  with s have "\<forall>z \<in> set ys. ?f y \<le> ?f z" by auto
  moreover have st: "set ?s = set xs" by simp
  ultimately have ge: "\<forall>z \<in> set xs. amount z \<le> amount y"
    using s by (metis neg_le_iff_le order_refl set_ConsD)
  have "y \<in> set xs" using st s by (metis list.set_intros(1))
  with ge have "Max (amount ` set xs) = amount y"
    by (intro Max_eqI) auto
  with s show ?thesis by simp
qed

lemma level_none:
  assumes "filter (\<lambda>t. type t = ''level'') T = []"
  shows "getCurrentLevel T = 0"
  using assms by (simp add: getCurrentLevel_def)

lemma level_max:
  assumes "filter (\<lambda>t. type t = ''level'') T \<noteq> []"
  shows "getCurrentLevel T = Max (amount ` set (filter (\<lambda>t. type t = ''level'') T))"
proof -
  obtain y ys
    where s: "sort_key (\<lambda>t. - amount t) (filter (\<lambda>t. type t = ''level'') T) = y # ys"
      and m: "amount y = Max (amount ` set (filter (\<lambda>t. type t = ''level'') T))"
    using sort_key_desc_head[OF assms] by blast
  show ?thesis unfolding getCurrentLevel_def Let_def s using m by simp
qed

lemma level_perm:
  assumes "mset T' = mset T"
  shows "getCurrentLevel T' = getCurrentLevel T"
proof -
  let ?P = "\<lambda>t::transaction. type t = ''level''"
  have ms: "mset (filter ?P T') = mset (filter ?P T)"
    using assms by (metis mset_filter)
  hence se: "set (filter ?P T') = set (filter ?P T)"
    by (rule mset_eq_setD)
  show ?thesis
  proof (cases "filter ?P T = []")
    case True
    hence "filter ?P T' = []" using ms by (metis mset_zero_iff)
    thus ?thesis using True by (simp add: level_none)
  next
    case False
    hence "filter ?P T' \<noteq> []" using ms by (metis mset_zero_iff)
    thus ?thesis using False se by (simp add: level_max)
  qed
qed

text \<open>
  C2. \<^verbatim>\<open>getCurrentLevel\<close> returns 0 for a list without a transaction of type
  \<^verbatim>\<open>'level'\<close>, and otherwise the greatest amount among the transactions of that type;
  the result is the same for every permutation of the list.
\<close>

theorem getCurrentLevel_is_max_and_order_independent:
  "(filter (\<lambda>t. type t = ''level'') T = [] \<longrightarrow> getCurrentLevel T = 0) \<and>
   (filter (\<lambda>t. type t = ''level'') T \<noteq> [] \<longrightarrow>
      getCurrentLevel T = Max (amount ` set (filter (\<lambda>t. type t = ''level'') T))) \<and>
   (\<forall>T'. mset T' = mset T \<longrightarrow> getCurrentLevel T' = getCurrentLevel T)"
  using level_none level_max level_perm by blast

theorem getCurrentLevel_witness:
  "getCurrentLevel [tx ''xp'' 50 ''/a/b''] = 0 \<and>
   getCurrentLevel [tx ''level'' 3 ''/a'', tx ''xp'' 50 ''/a/b'', tx ''level'' 5 ''/a'',
                    tx ''level'' 4 ''/a''] = 5 \<and>
   getCurrentLevel [tx ''level'' 5 ''/a'', tx ''level'' 4 ''/a'', tx ''xp'' 50 ''/a/b'',
                    tx ''level'' 3 ''/a''] = 5"
proof -
  let ?T = "[tx ''level'' 3 ''/a'', tx ''xp'' 50 ''/a/b'', tx ''level'' 5 ''/a'',
             tx ''level'' 4 ''/a'']"
  let ?T' = "[tx ''level'' 5 ''/a'', tx ''level'' 4 ''/a'', tx ''xp'' 50 ''/a/b'',
              tx ''level'' 3 ''/a'']"
  have a: "getCurrentLevel [tx ''xp'' 50 ''/a/b''] = 0"
    using getCurrentLevel_is_max_and_order_independent[of "[tx ''xp'' 50 ''/a/b'']"]
    by (simp add: tx_def)
  have b: "getCurrentLevel ?T = 5"
    using getCurrentLevel_is_max_and_order_independent[of ?T]
    by (simp add: tx_def)
  have "mset ?T' = mset ?T" by (simp add: tx_def)
  hence c: "getCurrentLevel ?T' = getCurrentLevel ?T"
    using getCurrentLevel_is_max_and_order_independent[of ?T] by blast
  show ?thesis using a b c by simp
qed

subsection \<open>The level of the user model\<close>

text \<open>
  C9. The \<^verbatim>\<open>User\<close> constructor sets \<^verbatim>\<open>level\<close> to the amount of the first
  transaction it is given, whatever the type of that transaction, and to 0 when there is
  no transaction or the array is absent (an amount of 0 is falsy and gives 0 as well). So
  the level of the model can differ from the greatest amount among the transactions of
  type \<^verbatim>\<open>'level'\<close>, as it does for an XP transaction of 50 followed by level 5.
\<close>

theorem User_level_is_first_amount:
  "level (User ud) =
     (case ud_transactions ud of
        None \<Rightarrow> 0
      | Some [] \<Rightarrow> 0
      | Some (t # ts) \<Rightarrow> amount t) \<and>
   level (User \<lparr> ud_login = ''jdoe'',
                 ud_transactions = Some [tx ''xp'' 50 ''/a/b'', tx ''level'' 5 ''/a''] \<rparr>) = 50 \<and>
   getCurrentLevel [tx ''xp'' 50 ''/a/b'', tx ''level'' 5 ''/a''] = 5"
proof -
  have "level (User ud) =
     (case ud_transactions ud of None \<Rightarrow> 0 | Some [] \<Rightarrow> 0 | Some (t # ts) \<Rightarrow> amount t)"
    by (simp add: User_def split: option.split list.split)
  moreover have "level (User \<lparr> ud_login = ''jdoe'',
      ud_transactions = Some [tx ''xp'' 50 ''/a/b'', tx ''level'' 5 ''/a''] \<rparr>) = 50"
    by (simp add: User_def tx_def)
  moreover have "getCurrentLevel [tx ''xp'' 50 ''/a/b'', tx ''level'' 5 ''/a''] = 5"
    by (simp add: getCurrentLevel_def tx_def)
  ultimately show ?thesis by simp
qed

subsection \<open>XP over time\<close>

lemma accumulate_xp_last:
  "ts \<noteq> [] \<Longrightarrow> value (last (accumulate_xp a ts)) = a + sum_list (map amount ts)"
proof (induction ts arbitrary: a)
  case Nil
  then show ?case by simp
next
  case (Cons t ts)
  show ?case
  proof (cases ts)
    case Nil
    then show ?thesis by simp
  next
    case (Cons t' ts')
    hence "accumulate_xp (a + amount t) ts \<noteq> []" by simp
    with Cons.IH[of "a + amount t"] Cons show ?thesis by simp
  qed
qed

lemma accumulate_xp_lower_bound:
  "\<forall>t \<in> set ts. 0 \<le> amount t \<Longrightarrow> \<forall>p \<in> set (accumulate_xp a ts). a \<le> value p"
proof (induction ts arbitrary: a)
  case Nil
  then show ?case by simp
next
  case (Cons t ts)
  have "\<forall>p \<in> set (accumulate_xp (a + amount t) ts). a + amount t \<le> value p"
    using Cons by simp
  with Cons.prems show ?case by fastforce
qed

lemma accumulate_xp_sorted:
  "\<forall>t \<in> set ts. 0 \<le> amount t \<Longrightarrow> sorted (map value (accumulate_xp a ts))"
proof (induction ts arbitrary: a)
  case Nil
  then show ?case by simp
next
  case (Cons t ts)
  have "\<forall>p \<in> set (accumulate_xp (a + amount t) ts). a + amount t \<le> value p"
    using Cons.prems by (intro accumulate_xp_lower_bound) simp
  with Cons show ?case by simp
qed

text \<open>
  C10. When the transactions of a user hold at least one of type \<^verbatim>\<open>'xp'\<close>, the value
  of the last element of \<^verbatim>\<open>getXPOverTime\<close> is \<^verbatim>\<open>calculateTotalXP\<close> of the same
  transactions; and when no XP amount is negative, the values never decrease along the
  series.
\<close>

theorem getXPOverTime_last_is_total_and_monotone:
  "(filter (\<lambda>t. type t = ''xp'') (transactions u) \<noteq> [] \<longrightarrow>
      value (last (getXPOverTime u)) = calculateTotalXP (transactions u)) \<and>
   ((\<forall>t \<in> set (transactions u). type t = ''xp'' \<longrightarrow> 0 \<le> amount t) \<longrightarrow>
      sorted (map value (getXPOverTime u)))"
proof (intro conjI impI)
  assume "filter (\<lambda>t. type t = ''xp'') (transactions u) \<noteq> []"
  then show "value (last (getXPOverTime u)) = calculateTotalXP (transactions u)"
    by (simp add: getXPOverTime_def calculateTotalXP_def accumulate_xp_last foldl_add_amount)
next
  assume "\<forall>t \<in> set (transactions u). type t = ''xp'' \<longrightarrow> 0 \<le> amount t"
  then have "\<forall>t \<in> set (filter (\<lambda>t. type t = ''xp'') (transactions u)). 0 \<le> amount t"
    by simp
  then show "sorted (map value (getXPOverTime u))"
    unfolding getXPOverTime_def by (rule accumulate_xp_sorted)
qed

theorem getXPOverTime_witness:
  "map value (getXPOverTime (User \<lparr> ud_login = ''jdoe'',
      ud_transactions = Some [tx ''xp'' 50 ''/a/b'', tx ''level'' 5 ''/a'',
                              tx ''xp'' 30 ''/a/c''] \<rparr>)) = [50, 80] \<and>
   value (last (getXPOverTime (User \<lparr> ud_login = ''jdoe'',
      ud_transactions = Some [tx ''xp'' 50 ''/a/b'', tx ''level'' 5 ''/a'',
                              tx ''xp'' 30 ''/a/c''] \<rparr>))) =
     calculateTotalXP [tx ''xp'' 50 ''/a/b'', tx ''level'' 5 ''/a'', tx ''xp'' 30 ''/a/c''] \<and>
   sorted (map value (getXPOverTime (User \<lparr> ud_login = ''jdoe'',
      ud_transactions = Some [tx ''xp'' 50 ''/a/b'', tx ''level'' 5 ''/a'',
                              tx ''xp'' 30 ''/a/c''] \<rparr>)))"
proof -
  let ?T = "[tx ''xp'' 50 ''/a/b'', tx ''level'' 5 ''/a'', tx ''xp'' 30 ''/a/c'']"
  let ?u = "User \<lparr> ud_login = ''jdoe'', ud_transactions = Some ?T \<rparr>"
  have t: "transactions ?u = ?T" by (simp add: User_def)
  have ne: "filter (\<lambda>t. type t = ''xp'') (transactions ?u) \<noteq> []"
    unfolding t by (simp add: tx_def)
  have nn: "\<forall>t \<in> set (transactions ?u). type t = ''xp'' \<longrightarrow> 0 \<le> amount t"
    unfolding t by (simp add: tx_def)
  have v: "map value (getXPOverTime ?u) = [50, 80]"
    unfolding getXPOverTime_def t by (simp add: tx_def)
  from getXPOverTime_last_is_total_and_monotone[of ?u] ne nn
  have "value (last (getXPOverTime ?u)) = calculateTotalXP (transactions ?u)"
    and "sorted (map value (getXPOverTime ?u))"
    by blast+
  with v t show ?thesis by simp
qed

section \<open>Properties of the profile fetch\<close>

lemma getUserProfile_invalid_iff:
  "getUserProfile response = Inl InvalidResponseStructure \<longleftrightarrow>
     (response = None \<or>
      (\<exists>r. response = Some r \<and> (data_user r = None \<or> data_user r = Some [])))"
  by (auto simp add: getUserProfile_def split: option.splits list.splits)

lemma getUserProfile_complete_record:
  assumes "data_user r = Some (u # us)"
    and "raw_audits u = Some a" and "raw_transactions u = Some t"
    and "raw_progressesByPath u = Some g"
  shows "\<exists>p. getUserProfile (Some r) = Inr p \<and> xpInfo_totalXP p = calculateTotalXP t
             \<and> profile_level p = getCurrentLevel t"
  using assms by (simp add: getUserProfile_def)

lemma getUserProfile_missing_xps:
  "getUserProfile (Some \<lparr> data_user = Some [sample_user\<lparr> raw_xps := None \<rparr>] \<rparr>) = Inr p
     \<Longrightarrow> xpInfo_xps p = []"
  by (auto simp add: getUserProfile_def sample_user_def)

text \<open>
  C5. The check for a missing user record is the only one \<^verbatim>\<open>getUserProfile\<close> makes.
  With a user record whose \<^verbatim>\<open>transactions\<close>, \<^verbatim>\<open>audits\<close> or
  \<^verbatim>\<open>progressesByPath\<close> is absent, the call does not treat the collection as empty:
  it fails with a \<^verbatim>\<open>TypeError\<close>. Only \<^verbatim>\<open>xps\<close> is defaulted to the empty array.
\<close>

theorem getUserProfile_missing_collection_throws:
  "getUserProfile (Some \<lparr> data_user = Some [sample_user\<lparr> raw_transactions := None \<rparr>] \<rparr>)
     = Inl TypeError \<and>
   getUserProfile (Some \<lparr> data_user = Some [sample_user\<lparr> raw_audits := None \<rparr>] \<rparr>)
     = Inl TypeError \<and>
   getUserProfile (Some \<lparr> data_user = Some [sample_user\<lparr> raw_progressesByPath := None \<rparr>] \<rparr>)
     = Inl TypeError"
  by (simp add: getUserProfile_def sample_user_def)

section \<open>Properties of the charts\<close>

lemma audit_chart_example:
  "createAuditRatioChart 300 150 True =
     Inr [\<lparr> rect_x = Fin 0, rect_y = Fin 0, rect_width = Fin 48, rect_height = Fin 100,
             rect_fill = ''skyblue'' \<rparr>,
          \<lparr> rect_x = Fin 50, rect_y = Fin 50, rect_width = Fin 48, rect_height = Fin 50,
             rect_fill = ''lightgreen'' \<rparr>]"
  by (simp add: createAuditRatioChart_def audit_bar_def Math_max_def js_sub_def dbl_half Let_def)

text \<open>
  C6. With both values 0 the greatest value is 0, and \<^verbatim>\<open>createAuditRatioChart\<close>
  divides by it: the height and the vertical position of both bars are \<^verbatim>\<open>NaN\<close>, not 0.
\<close>

theorem createAuditRatioChart_zero_max_gives_NaN:
  "createAuditRatioChart 0 0 True =
     Inr [\<lparr> rect_x = Fin 0, rect_y = NaN, rect_width = Fin 48, rect_height = NaN,
             rect_fill = ''skyblue'' \<rparr>,
          \<lparr> rect_x = Fin 50, rect_y = NaN, rect_width = Fin 48, rect_height = NaN,
             rect_fill = ''lightgreen'' \<rparr>]"
  by (simp add: createAuditRatioChart_def audit_bar_def Math_max_def js_sub_def)

lemma Math_max_equal:
  fixes ds :: "timeline_entry list"
  assumes "ds \<noteq> []" "\<forall>d \<in> set ds. tl_amount d = a" "\<bar>a\<bar> \<le> 2 ^ 53"
  shows "Math_max (map (\<lambda>d. js_int (tl_amount d)) ds) = Fin (real_of_int a)"
proof -
  have rest: "foldl js_max2 (Fin (real_of_int a)) (map (\<lambda>d. js_int (tl_amount d)) es)
      = Fin (real_of_int a)"
    if "\<forall>d \<in> set es. tl_amount d = a" for es :: "timeline_entry list"
    using that by (induction es) (simp_all add: js_int_small[OF assms(3)])
  obtain d es where ds: "ds = d # es" using assms(1) by (cases ds) auto
  with assms(2) have d: "tl_amount d = a" and es: "\<forall>d \<in> set es. tl_amount d = a" by simp_all
  have "Math_max (map (\<lambda>d. js_int (tl_amount d)) ds)
      = foldl js_max2 (Fin (real_of_int a)) (map (\<lambda>d. js_int (tl_amount d)) es)"
    unfolding ds Math_max_def using d by (simp add: js_int_small[OF assms(3)])
  thus ?thesis using rest[OF es] by simp
qed

lemma timeline_equal_nonzero_amounts:
  assumes "ds \<noteq> []" "\<forall>d \<in> set ds. tl_amount d = a" "a \<noteq> 0" "\<bar>a\<bar> \<le> 2 ^ 53"
  shows "map (\<lambda>c. snd (snd c)) (calculateTimelinePath (Some ds)) = replicate (length ds) (Fin 0)"
proof -
  have y: "snd (snd (timeline_command n (Fin (real_of_int a)) (i, d))) = Fin 0"
    if "tl_amount d = a" for n i d
    using that assms(3) by (simp add: timeline_command_def js_int_small[OF assms(4)] js_sub_def)
  have "map (\<lambda>c. snd (snd c)) (map (timeline_command n (Fin (real_of_int a))) (enumerate k es))
          = replicate (length es) (Fin 0)"
    if "\<forall>d \<in> set es. tl_amount d = a" for n k and es :: "timeline_entry list"
    using that by (induction es arbitrary: k) (simp_all add: y)
  thus ?thesis
    using assms(1,2)
    by (simp add: calculateTimelinePath_def Math_max_equal[OF assms(1,2,4)])
qed

lemma timeline_equal_amounts_example:
  "calculateTimelinePath (Some [pt 7, pt 7, pt 7]) =
     [(CHR ''M'', Fin 0, Fin 0), (CHR ''L'', Fin 50, Fin 0), (CHR ''L'', Fin 100, Fin 0)]"
  by (simp add: calculateTimelinePath_def timeline_command_def pt_def Math_max_def
        js_sub_def dbl_half Let_def)

text \<open>
  C3. For a single point \<^verbatim>\<open>calculateTimelinePath\<close> computes \<^verbatim>\<open>0 / (1 - 1)\<close>: the
  x-coordinate is \<^verbatim>\<open>NaN\<close>, not 0. When all amounts are 0 the greatest amount is 0 and
  every y-coordinate is \<^verbatim>\<open>NaN\<close>: no divisor is substituted.
\<close>

theorem calculateTimelinePath_degenerate_gives_NaN:
  "calculateTimelinePath (Some [pt 50]) = [(CHR ''M'', NaN, Fin 0)] \<and>
   calculateTimelinePath (Some [pt 0, pt 0]) =
     [(CHR ''M'', Fin 0, NaN), (CHR ''L'', Fin 100, NaN)]"
  by (simp add: calculateTimelinePath_def timeline_command_def pt_def Math_max_def
        js_sub_def)

subsection \<open>The pie chart\<close>

lemma pie_placeholder_when_no_module_project:
  assumes "filter is_module_project xp = []"
  shows "renderProjectPieChart E True xp =
           Some (Message ''No XP data available for Bahrain module projects'')"
    and "arc_paths (renderProjectPieChart E True xp) = []"
  using assms by (simp_all add: renderProjectPieChart_def)

text \<open>The arc paths of a drawn chart are those of the slices, in the order of the sorted projects.\<close>

lemma arcs_of_slice_elements:
  "concat (map (\<lambda>e. case e of ArcPath a \<Rightarrow> [a] | _ \<Rightarrow> []) (concat (map slice_elements ss)))
     = map arc ss"
proof (induction ss)
  case Nil
  then show ?case by simp
next
  case (Cons s ss)
  have "concat (map (\<lambda>e. case e of ArcPath a \<Rightarrow> [a] | _ \<Rightarrow> []) (slice_elements s)) = [arc s]"
    by (cases "label s") (simp_all add: slice_elements_def)
  with Cons show ?case by simp
qed

lemma arcs_of_legend:
  "concat (map (\<lambda>e. case e of ArcPath a \<Rightarrow> [a] | _ \<Rightarrow> []) (map (\<lambda>ip. LegendItem (f ip)) xs)) = []"
  by (induction xs) simp_all

lemma rendered_arcs_are_slices:
  assumes "filter is_module_project xp \<noteq> []"
  shows "arc_paths (renderProjectPieChart E True xp) =
           map arc (draw_slices E (sort_key (\<lambda>p. - amount_kB p)
                                     (map to_project (filter is_module_project xp))))"
  using assms
  by (simp add: renderProjectPieChart_def Let_def arcs_of_slice_elements arcs_of_legend)

lemma graphql_is_module_project:
  "is_module_project (''/bahrain/bh-module/graphql'', 400)"
  by (simp add: is_module_project_def js_split_def)

lemma dbl_val_two_fifths: "round (dbl_val (400 / 1000)) = 0"
  by (simp add: dbl_val_def quantum_def exponent_def exponent_up.simps exponent_down.simps
        round_even_def Let_def round_def)

lemma graphql_to_project:
  "to_project (''/bahrain/bh-module/graphql'', 400) =
     \<lparr> project = ''graphql'', amount_kB = 0, project_path = ''/bahrain/bh-module/graphql'' \<rparr>"
  using dbl_val_two_fifths by (simp add: to_project_def js_split_def)

lemma start_angle:
  "js_div (js_neg Math_PI) (Fin 2) = Fin (- (884279719003555 / 2 ^ 49))"
  by (simp add: Math_PI_def dbl_eval)

text \<open>
  C7. An object without a module project gives the message and no arc path (the lemma
  above). But the total is also 0 when the selected projects all round to 0 kB: for the
  single entry \<^verbatim>\<open>{"/bahrain/bh-module/graphql": 400}\<close> the selection is not empty, the
  chart is drawn, and the share \<^verbatim>\<open>0 / 0\<close> is \<^verbatim>\<open>NaN\<close>, as are the percentage and
  the end point of the arc, whatever the engine's cosine.
\<close>

theorem renderProjectPieChart_zero_total_divides_by_zero:
  "map percentage (draw_slices E [to_project (''/bahrain/bh-module/graphql'', 400)]) = [NaN] \<and>
   map data_percentage
     (arc_paths (renderProjectPieChart E True [(''/bahrain/bh-module/graphql'', 400)])) = [NaN] \<and>
   map x3
     (arc_paths (renderProjectPieChart E True [(''/bahrain/bh-module/graphql'', 400)])) = [NaN]"
  by (simp add: renderProjectPieChart_def graphql_is_module_project graphql_to_project
        total_kB_def draw_slices_def draw_slice_def slice_elements_def start_angle
        Let_def polar_x_def centerX_def radius_def)

section \<open>Properties of the colour transform\<close>

lemma and_255: "(x::int) AND 255 = x mod 256"
proof -
  have "(255::int) = mask 8" by (simp add: mask_eq_exp_minus_1)
  hence "x AND 255 = take_bit 8 x" by (simp add: take_bit_eq_mask)
  thus ?thesis by (simp add: take_bit_eq_mod)
qed

lemma hex_digit_less: "hex_digit c = Some v \<Longrightarrow> v < 16"
  by (auto simp: hex_digit_def Let_def split: if_splits)

lemma hex_digit_hex_char: "d < 16 \<Longrightarrow> hex_digit (hex_char d) = Some d"
proof -
  assume "d < 16"
  hence "d \<in> set [0..<16]" by simp
  moreover have "list_all (\<lambda>d. hex_digit (hex_char d) = Some d) [0..<16]"
    by (simp add: upt_rec hex_char_def hex_digit_def)
  ultimately show ?thesis by (simp only: list_all_iff)
qed

lemma parse_hex_digits_append:
  "list_all (\<lambda>d. hex_digit d \<noteq> None) ds \<Longrightarrow>
   parse_hex_digits acc (ds @ es) = parse_hex_digits (parse_hex_digits acc ds) es"
  by (induction ds arbitrary: acc) (auto split: option.splits)

lemma parse_all_hex:
  "list_all (\<lambda>d. hex_digit d \<noteq> None) ds \<Longrightarrow>
   \<exists>n < 16 ^ length ds. \<forall>a. parse_hex_digits (Some a) ds = Some (16 ^ length ds * a + n)"
proof (induction ds)
  case Nil
  then show ?case by simp
next
  case (Cons d ds)
  then obtain v where v: "hex_digit d = Some v" by auto
  hence v16: "v < 16" by (rule hex_digit_less)
  from Cons obtain n where n: "n < 16 ^ length ds"
    and p: "\<forall>a. parse_hex_digits (Some a) ds = Some (16 ^ length ds * a + n)" by auto
  have "16 ^ length ds * v + n < 16 ^ length ds * 16"
  proof -
    have "(16::nat) ^ length ds * v \<le> 16 ^ length ds * 15" using v16 by simp
    with n show ?thesis by linarith
  qed
  hence "16 ^ length ds * v + n < 16 ^ length (d # ds)" by (simp add: mult.commute)
  moreover have "\<forall>a. parse_hex_digits (Some a) (d # ds) = Some (16 ^ length (d # ds) * a + (16 ^ length ds * v + n))"
    using v p by (simp add: algebra_simps)
  ultimately show ?case by blast
qed

lemma parseInt16_hex_color:
  assumes "is_hex_color c"
  shows "\<exists>n < 16777216. parseInt16 (remove1 CHR ''#'' c) = Some n"
proof -
  from assms obtain ds where c: "c = CHR ''#'' # ds" and len: "length ds = 6"
    and hex: "list_all (\<lambda>d. hex_digit d \<noteq> None) ds"
    by (auto simp: is_hex_color_def split: list.splits)
  from len obtain d es where ds: "ds = d # es" and les: "length es = 5" by (cases ds) auto
  from hex ds obtain v where v: "hex_digit d = Some v" by auto
  hence v16: "v < 16" by (rule hex_digit_less)
  from hex ds have "list_all (\<lambda>d. hex_digit d \<noteq> None) es" by simp
  from parse_all_hex[OF this] les obtain n where n: "n < 16 ^ 5"
    and p: "\<forall>a. parse_hex_digits (Some a) es = Some (16 ^ 5 * a + n)" by auto
  have "parseInt16 (remove1 CHR ''#'' c) = Some (16 ^ 5 * v + n)"
    using c ds v p by (simp add: parseInt16_def)
  moreover have "16 ^ 5 * v + n < (16777216::nat)" using v16 n by simp
  ultimately show ?thesis by blast
qed

lemma hex_fixed_length: "length (hex_fixed k m) = k"
  by (induction k arbitrary: m) simp_all

lemma hex_fixed_all_hex: "list_all (\<lambda>d. hex_digit d \<noteq> None) (hex_fixed k m)"
  by (induction k arbitrary: m) (simp_all add: hex_digit_hex_char)

lemma parse_hex_fixed:
  "m < 16 ^ k \<Longrightarrow> parse_hex_digits (Some a) (hex_fixed k m) = Some (16 ^ k * a + m)"
proof (induction k arbitrary: m)
  case 0
  then show ?case by simp
next
  case (Suc k)
  hence "m div 16 < 16 ^ k" by (simp add: less_mult_imp_div_less mult.commute)
  from Suc.IH[OF this]
  have "parse_hex_digits (Some a) (hex_fixed k (m div 16)) = Some (16 ^ k * a + m div 16)" .
  hence "parse_hex_digits (Some a) (hex_fixed (Suc k) m) =
           parse_hex_digits (Some (16 ^ k * a + m div 16)) [hex_char (m mod 16)]"
    by (simp add: parse_hex_digits_append[OF hex_fixed_all_hex])
  also have "\<dots> = Some (16 * (16 ^ k * a + m div 16) + m mod 16)"
    by (simp add: hex_digit_hex_char)
  also have "16 * (16 ^ k * a + m div 16) + m mod 16 = 16 ^ Suc k * a + m"
    by (simp add: algebra_simps)
  finally show ?case .
qed

lemma toString16_fixed:
  "0 < d \<Longrightarrow> m < 16 ^ k \<Longrightarrow> toString16 (d * 16 ^ k + m) = toString16 d @ hex_fixed k m"
proof (induction k arbitrary: m)
  case 0
  then show ?case by simp
next
  case (Suc k)
  let ?n = "d * 16 ^ Suc k + m"
  have n: "?n = 16 * (d * 16 ^ k) + m" by simp
  have "1 \<le> d * 16 ^ k" using Suc.prems(1) by (simp add: Suc_leI)
  hence ge: "\<not> ?n < 16" unfolding n by linarith
  have dv: "?n div 16 = d * 16 ^ k + m div 16" unfolding n by simp
  have md: "?n mod 16 = m mod 16" unfolding n by simp
  have "m div 16 < 16 ^ k" using Suc.prems(2) by (simp add: less_mult_imp_div_less mult.commute)
  from Suc.IH[OF Suc.prems(1) this]
  have ih: "toString16 (d * 16 ^ k + m div 16) = toString16 d @ hex_fixed k (m div 16)" .
  have "toString16 ?n = toString16 (?n div 16) @ [hex_char (?n mod 16)]"
    using ge by (subst toString16.simps) simp
  thus ?case unfolding dv md ih by simp
qed


lemma parse_from_None:
  "list_all (\<lambda>d. hex_digit d \<noteq> None) ds \<Longrightarrow> ds \<noteq> [] \<Longrightarrow>
   parse_hex_digits None ds = parse_hex_digits (Some 0) ds"
  by (cases ds) auto

lemma parseInt16_hex_fixed:
  assumes "m < 16 ^ Suc k"
  shows "parseInt16 (hex_fixed (Suc k) m) = Some m"
proof -
  have "hex_fixed (Suc k) m \<noteq> []" by simp
  hence "parseInt16 (hex_fixed (Suc k) m) = parse_hex_digits (Some 0) (hex_fixed (Suc k) m)"
    unfolding parseInt16_def by (intro parse_from_None hex_fixed_all_hex)
  also have "\<dots> = Some (16 ^ Suc k * 0 + m)" using assms by (rule parse_hex_fixed)
  finally show ?thesis by simp
qed

lemma ToInt32_small: "n < 16777216 \<Longrightarrow> ToInt32 (Some n) = int n"
  by (simp add: ToInt32_def Let_def)

lemma channels_of_number:
  fixes R G B :: int
  assumes "0 \<le> R" "R \<le> 255" "0 \<le> G" "G \<le> 255" "0 \<le> B" "B \<le> 255"
  shows "(R * 65536 + G * 256 + B) div 65536 = R"
    and "((R * 65536 + G * 256 + B) div 256) mod 256 = G"
    and "(R * 65536 + G * 256 + B) mod 256 = B"
proof -
  have low: "0 \<le> G * 256 + B" "G * 256 + B < 65536" using assms by auto
  have "(R * 65536 + (G * 256 + B)) div 65536 = R"
    using low by (simp add: div_pos_pos_trivial)
  thus "(R * 65536 + G * 256 + B) div 65536 = R" by (simp add: add.assoc)
  have "R * 65536 + G * 256 + B = (R * 256 + G) * 256 + B" by simp
  hence d: "(R * 65536 + G * 256 + B) div 256 = R * 256 + G"
    using assms(5,6) by (simp add: div_pos_pos_trivial)
  show "((R * 65536 + G * 256 + B) div 256) mod 256 = G"
    unfolding d using assms(3,4) by (simp add: mod_pos_pos_trivial)
  have e: "R * 65536 + G * 256 + B = (R * 256 + G) * 256 + B" by simp
  have "((R * 256 + G) * 256 + B) mod 256 = B mod 256" by (rule mod_mult_self3)
  also have "\<dots> = B" using assms(5,6) by (simp add: mod_pos_pos_trivial)
  finally show "(R * 65536 + G * 256 + B) mod 256 = B" unfolding e .
qed

lemma rgb_number_bound:
  fixes R G B :: int
  assumes "0 \<le> R" "R \<le> 255" "0 \<le> G" "G \<le> 255" "0 \<le> B" "B \<le> 255"
  shows "nat (R * 65536 + G * 256 + B) < 16777216"
    and "nat (16777216 + R * 65536 + G * 256 + B) = 16777216 + nat (R * 65536 + G * 256 + B)"
  using assms by auto

lemma channels_of_hex_fixed:
  fixes R G B :: int
  assumes "0 \<le> R" "R \<le> 255" "0 \<le> G" "G \<le> 255" "0 \<le> B" "B \<le> 255"
  defines "s \<equiv> CHR ''#'' # hex_fixed 6 (nat (R * 65536 + G * 256 + B))"
  shows "red s = R" and "green s = G" and "blue s = B" and "is_hex_color s"
proof -
  let ?m = "nat (R * 65536 + G * 256 + B)"
  have nonneg: "0 \<le> R * 65536 + G * 256 + B" using assms by auto
  have m: "?m < 16777216" using assms by auto
  have six: "Suc 5 = 6" by simp
  have "?m < 16 ^ Suc 5" using m by simp
  hence "parseInt16 (hex_fixed (Suc 5) ?m) = Some ?m" by (rule parseInt16_hex_fixed)
  hence "parseInt16 (hex_fixed 6 ?m) = Some ?m" unfolding six .
  hence p: "parseInt16 (remove1 CHR ''#'' s) = Some ?m" by (simp add: s_def)
  have t: "ToInt32 (parseInt16 (remove1 CHR ''#'' s)) = R * 65536 + G * 256 + B"
    unfolding p using ToInt32_small[OF m] nonneg by simp
  show "red s = R"
    unfolding red_def t drop_bit_eq_div using channels_of_number(1)[OF assms(1-6)] by simp
  show "green s = G"
    unfolding green_def t drop_bit_eq_div and_255 using channels_of_number(2)[OF assms(1-6)] by simp
  show "blue s = B"
    unfolding blue_def t and_255 using channels_of_number(3)[OF assms(1-6)] by simp
  show "is_hex_color s"
    unfolding s_def is_hex_color_def
    using hex_fixed_all_hex[of 6 ?m] by (simp add: hex_fixed_length)
qed

lemma js_add_int:
  assumes "\<bar>a + b\<bar> \<le> 2 ^ 53"
  shows "js_add (Fin (of_int a)) (Fin (of_int b)) = Fin (of_int (a + b))"
  using dbl_of_int[OF assms] by simp

lemma js_mul_int:
  assumes "\<bar>a * b\<bar> \<le> 2 ^ 53"
  shows "js_mul (Fin (of_int a)) (Fin (of_int b)) = Fin (of_int (a * b))"
  using dbl_of_int[OF assms] by simp

lemma literal_255_100: "dbl (255 / 100) = Fin (5742089524897382 / 2 ^ 51)"
  by (simp add: dbl_eval)

lemma dbl_val_255_100: "dbl_val (255 / 100) = 5742089524897382 / 2 ^ 51"
  by (simp add: dbl_val_def quantum_def exponent_def exponent_up.simps exponent_down.simps
        round_even_def Let_def)

lemma amount_at_100: "round (dbl_val (5742089524897382 / 2 ^ 51 * 100)) = 255"
  by (simp add: dbl_val_def quantum_def exponent_def exponent_up.simps exponent_down.simps
        round_even_def Let_def round_def)

text \<open>The amount subtracted from every channel, for a percentage between 0 and 100.\<close>

lemma darken_amount:
  assumes "0 \<le> p" "p \<le> 100"
  defines "amt \<equiv> round (dbl_val (dbl_val (255 / 100) * p))"
  shows "Math_round (js_mul (dbl (255 / 100)) (Fin p)) = Fin (of_int amt)"
    and "0 \<le> amt" and "amt \<le> 255"
proof -
  let ?k = "5742089524897382 / 2 ^ 51 :: real"
  have k: "0 \<le> ?k" "?k \<le> 3" by simp_all
  have "?k * p \<le> 3 * 100" using assms(1,2) k by (intro mult_mono) simp_all
  moreover have "0 \<le> ?k * p" using assms(1) by simp
  ultimately have "\<bar>?k * p\<bar> \<le> 2 ^ 53" by simp
  hence "dbl (?k * p) = Fin (dbl_val (?k * p))" by (rule dbl_small)
  thus "Math_round (js_mul (dbl (255 / 100)) (Fin p)) = Fin (of_int amt)"
    unfolding literal_255_100 amt_def dbl_val_255_100 by simp
  have "0 \<le> dbl_val (?k * p)" using assms(1) by (intro dbl_val_nonneg) simp
  hence "round (0::real) \<le> round (dbl_val (?k * p))" by (rule round_mono)
  thus "0 \<le> amt" unfolding amt_def dbl_val_255_100 by simp
  have "?k * p \<le> ?k * 100" using assms(2) by (intro mult_left_mono) simp_all
  hence "dbl_val (?k * p) \<le> dbl_val (?k * 100)" by (rule dbl_val_mono)
  hence "round (dbl_val (?k * p)) \<le> round (dbl_val (?k * 100))" by (rule round_mono)
  thus "amt \<le> 255" unfolding amount_at_100 amt_def dbl_val_255_100 .
qed

lemma darken_amount_mono:
  assumes "p \<le> q"
  shows "round (dbl_val (dbl_val (255 / 100) * p)) \<le> round (dbl_val (dbl_val (255 / 100) * q))"
proof -
  have "0 \<le> dbl_val (255 / 100)" by (intro dbl_val_nonneg) simp
  hence "dbl_val (255 / 100) * p \<le> dbl_val (255 / 100) * q"
    using assms by (intro mult_left_mono)
  thus ?thesis by (intro round_mono dbl_val_mono)
qed

lemma darken_channel:
  fixes ch amt :: int
  assumes "0 \<le> ch" "ch \<le> 255" "0 \<le> amt" "amt \<le> 255"
  defines "v \<equiv> js_sub (js_int ch) (Fin (of_int amt))"
  shows "(if js_gt (Fin 0) v then Fin 0 else v) = Fin (of_int (max 0 (ch - amt)))"
proof -
  have "\<bar>ch\<bar> \<le> 2 ^ 53" using assms(1,2) by simp
  hence i: "js_int ch = Fin (of_int ch)" by (rule js_int_small)
  have "\<bar>ch + - amt\<bar> \<le> 2 ^ 53" using assms(1-4) by simp
  from js_add_int[OF this] have v: "v = Fin (of_int (ch - amt))"
    by (simp add: v_def js_sub_def i)
  show ?thesis unfolding v by (simp add: max_def)
qed

lemma darken_number:
  fixes R G B :: int
  assumes "0 \<le> R" "R \<le> 255" "0 \<le> G" "G \<le> 255" "0 \<le> B" "B \<le> 255"
  shows "Number_toString16
           (js_add (js_add (js_add (Fin 16777216) (js_mul (Fin (of_int R)) (Fin 65536)))
                           (js_mul (Fin (of_int G)) (Fin 256)))
                   (Fin (of_int B)))
         = toString16 (nat (16777216 + R * 65536 + G * 256 + B))"
proof -
  have r: "js_mul (Fin (of_int R)) (Fin 65536) = Fin (of_int (R * 65536))"
    using js_mul_int[of R 65536] assms(1,2) by simp
  have g: "js_mul (Fin (of_int G)) (Fin 256) = Fin (of_int (G * 256))"
    using js_mul_int[of G 256] assms(3,4) by simp
  have s1: "js_add (Fin 16777216) (Fin (of_int (R * 65536))) = Fin (of_int (16777216 + R * 65536))"
    using js_add_int[of 16777216 "R * 65536"] assms(1,2) by simp
  have s2: "js_add (Fin (of_int (16777216 + R * 65536))) (Fin (of_int (G * 256)))
              = Fin (of_int (16777216 + R * 65536 + G * 256))"
    using assms(1-4) by (intro js_add_int) simp
  have s3: "js_add (Fin (of_int (16777216 + R * 65536 + G * 256))) (Fin (of_int B))
              = Fin (of_int (16777216 + R * 65536 + G * 256 + B))"
    using assms(1-6) by (intro js_add_int) simp
  have nn: "\<not> real_of_int (16777216 + R * 65536 + G * 256 + B) < 0"
    using assms(1,3,5) by (simp add: not_less)
  show ?thesis
    unfolding r g s1 s2 s3 Number_toString16_def using nn
    by (simp only: jsnum.case if_False floor_of_int)
qed

lemma darkenColor_unfold:
  assumes "is_hex_color c" "0 \<le> p" "p \<le> 100"
  defines "amt \<equiv> round (dbl_val (dbl_val (255 / 100) * p))"
  shows "darkenColor c (Fin p) =
           CHR ''#'' # hex_fixed 6 (nat (max 0 (red c - amt) * 65536
                                        + max 0 (green c - amt) * 256
                                        + max 0 (blue c - amt)))"
    and "0 \<le> red c \<and> red c \<le> 255 \<and> 0 \<le> green c \<and> green c \<le> 255 \<and> 0 \<le> blue c \<and> blue c \<le> 255"
    and "0 \<le> amt"
proof -
  from parseInt16_hex_color[OF assms(1)] obtain n
    where n: "n < 16777216" and pn: "parseInt16 (remove1 CHR ''#'' c) = Some n" by blast
  have t: "ToInt32 (parseInt16 (remove1 CHR ''#'' c)) = int n"
    unfolding pn by (rule ToInt32_small[OF n])
  have r: "red c = int n div 65536" unfolding red_def t drop_bit_eq_div by simp
  have g: "green c = (int n div 256) mod 256" unfolding green_def t drop_bit_eq_div and_255 by simp
  have b: "blue c = int n mod 256" unfolding blue_def t and_255 by simp
  show rng: "0 \<le> red c \<and> red c \<le> 255 \<and> 0 \<le> green c \<and> green c \<le> 255 \<and> 0 \<le> blue c \<and> blue c \<le> 255"
    unfolding r g b using n by auto
  note am = darken_amount[OF assms(2,3), folded amt_def]
  show amt0: "0 \<le> amt" by (rule am(2))
  let ?R = "max 0 (red c - amt)" and ?G = "max 0 (green c - amt)" and ?B = "max 0 (blue c - amt)"
  have bounds: "0 \<le> ?R" "?R \<le> 255" "0 \<le> ?G" "?G \<le> 255" "0 \<le> ?B" "?B \<le> 255"
    using rng amt0 by auto
  let ?m = "nat (?R * 65536 + ?G * 256 + ?B)"
  have m: "?m < 16 ^ 6" using rgb_number_bound(1)[OF bounds] by simp
  have "nat (16777216 + ?R * 65536 + ?G * 256 + ?B) = 1 * 16 ^ 6 + ?m"
    using rgb_number_bound(2)[OF bounds] by simp
  hence "toString16 (nat (16777216 + ?R * 65536 + ?G * 256 + ?B)) = toString16 1 @ hex_fixed 6 ?m"
    using toString16_fixed[of 1 ?m 6] m by simp
  moreover have "toString16 1 = [hex_char 1]" by (subst toString16.simps) simp
  ultimately have ts: "drop 1 (toString16 (nat (16777216 + ?R * 65536 + ?G * 256 + ?B))) = hex_fixed 6 ?m"
    by simp
  have cr: "(if js_gt (Fin 0) (js_sub (js_int (red c)) (Fin (of_int amt))) then Fin 0
             else js_sub (js_int (red c)) (Fin (of_int amt))) = Fin (of_int ?R)"
    using rng am(2,3) by (intro darken_channel) simp_all
  have cg: "(if js_gt (Fin 0) (js_sub (js_int (green c)) (Fin (of_int amt))) then Fin 0
             else js_sub (js_int (green c)) (Fin (of_int amt))) = Fin (of_int ?G)"
    using rng am(2,3) by (intro darken_channel) simp_all
  have cb: "(if js_gt (Fin 0) (js_sub (js_int (blue c)) (Fin (of_int amt))) then Fin 0
             else js_sub (js_int (blue c)) (Fin (of_int amt))) = Fin (of_int ?B)"
    using rng am(2,3) by (intro darken_channel) simp_all
  have "darkenColor c (Fin p) =
          CHR ''#'' # drop 1 (Number_toString16
            (js_add (js_add (js_add (Fin 16777216) (js_mul (Fin (of_int ?R)) (Fin 65536)))
                            (js_mul (Fin (of_int ?G)) (Fin 256)))
                    (Fin (of_int ?B))))"
    unfolding darkenColor_def Let_def am(1)
    unfolding red_def[symmetric] green_def[symmetric] blue_def[symmetric]
    unfolding cr cg cb ..
  thus "darkenColor c (Fin p) = CHR ''#'' # hex_fixed 6 ?m"
    unfolding darken_number[OF bounds] ts .
qed

lemma darkenColor_channels:
  assumes "is_hex_color c" "0 \<le> p" "p \<le> 100"
  shows "red (darkenColor c (Fin p)) = max 0 (red c - round (dbl_val (dbl_val (255 / 100) * p)))"
    and "green (darkenColor c (Fin p)) = max 0 (green c - round (dbl_val (dbl_val (255 / 100) * p)))"
    and "blue (darkenColor c (Fin p)) = max 0 (blue c - round (dbl_val (dbl_val (255 / 100) * p)))"
    and "is_hex_color (darkenColor c (Fin p))"
proof -
  let ?amt = "round (dbl_val (dbl_val (255 / 100) * p))"
  let ?R = "max 0 (red c - ?amt)" and ?G = "max 0 (green c - ?amt)" and ?B = "max 0 (blue c - ?amt)"
  note u = darkenColor_unfold[OF assms]
  have bounds: "0 \<le> ?R" "?R \<le> 255" "0 \<le> ?G" "?G \<le> 255" "0 \<le> ?B" "?B \<le> 255"
    using u(2,3) by auto
  note ch = channels_of_hex_fixed[OF bounds]
  show "red (darkenColor c (Fin p)) = ?R" unfolding u(1) by (rule ch(1))
  show "green (darkenColor c (Fin p)) = ?G" unfolding u(1) by (rule ch(2))
  show "blue (darkenColor c (Fin p)) = ?B" unfolding u(1) by (rule ch(3))
  show "is_hex_color (darkenColor c (Fin p))" unfolding u(1) by (rule ch(4))
qed

lemma darken_amount_zero: "round (dbl_val (dbl_val (255 / 100) * 0)) = 0"
  by (simp add: dbl_val_def)

lemma amount_at_50: "round (dbl_val (dbl_val (255 / 100) * 50)) = 127"
  unfolding dbl_val_255_100
  by (simp add: dbl_val_def quantum_def exponent_def exponent_up.simps exponent_down.simps
        round_even_def Let_def round_def)

lemma amount_at_90: "round (dbl_val (dbl_val (255 / 100) * 90)) = 229"
  unfolding dbl_val_255_100
  by (simp add: dbl_val_def quantum_def exponent_def exponent_up.simps exponent_down.simps
        round_even_def Let_def round_def)

lemma darkenColor_white_example:
  "darkenColor ''#ffffff'' (Fin 50) = ''#808080'' \<and> darkenColor ''#ffffff'' (Fin 90) = ''#1a1a1a''"
proof -
  have n: "ToInt32 (parseInt16 (remove1 CHR ''#'' ''#ffffff'')) = 16777215"
    by (simp add: parseInt16_def hex_digit_def ToInt32_def)
  have a50: "Math_round (js_mul (dbl (255 / 100)) (Fin 50)) = Fin 127"
    using darken_amount(1)[of 50] amount_at_50 by simp
  have a90: "Math_round (js_mul (dbl (255 / 100)) (Fin 90)) = Fin 229"
    using darken_amount(1)[of 90] amount_at_90 by simp
  have "darkenColor ''#ffffff'' (Fin 50) = ''#808080''"
    unfolding darkenColor_def n a50 Let_def
    by (simp add: js_sub_def Number_toString16_def toString16.simps hex_char_def
          drop_bit_eq_div and_255)
  moreover have "darkenColor ''#ffffff'' (Fin 90) = ''#1a1a1a''"
    unfolding darkenColor_def n a90 Let_def
    by (simp add: js_sub_def Number_toString16_def toString16.simps hex_char_def
          drop_bit_eq_div and_255)
  ultimately show ?thesis by simp
qed

text \<open>
  C8. For a colour \<^verbatim>\<open>#RRGGBB\<close> and percentages in the documented range, 0 to 100:
  \<^verbatim>\<open>darkenColor(color, 0)\<close> is a colour \<^verbatim>\<open>#rrggbb\<close> with the same three channels;
  every channel of \<^verbatim>\<open>darkenColor(color, p)\<close> is the channel of the colour minus the
  rounded product of the double 2.55 and \<open>p\<close>, itself rounded to a double, clamped at 0;
  and no channel grows when the percentage grows.
\<close>

theorem darkenColor_identity_and_monotone:
  assumes "is_hex_color c" and "0 \<le> p" and "p \<le> q" and "q \<le> 100"
  shows "is_hex_color (darkenColor c (Fin 0)) \<and>
         red (darkenColor c (Fin 0)) = red c \<and>
         green (darkenColor c (Fin 0)) = green c \<and>
         blue (darkenColor c (Fin 0)) = blue c \<and>
         red (darkenColor c (Fin p)) = max 0 (red c - round (dbl_val (dbl_val (255 / 100) * p))) \<and>
         green (darkenColor c (Fin p)) = max 0 (green c - round (dbl_val (dbl_val (255 / 100) * p))) \<and>
         blue (darkenColor c (Fin p)) = max 0 (blue c - round (dbl_val (dbl_val (255 / 100) * p))) \<and>
         red (darkenColor c (Fin q)) \<le> red (darkenColor c (Fin p)) \<and>
         green (darkenColor c (Fin q)) \<le> green (darkenColor c (Fin p)) \<and>
         blue (darkenColor c (Fin q)) \<le> blue (darkenColor c (Fin p))"
proof -
  have q0: "0 \<le> q" and p100: "p \<le> 100" using assms(2,3,4) by simp_all
  have z: "(0::real) \<le> 0" "(0::real) \<le> 100" by simp_all
  note at0 = darkenColor_channels[OF assms(1) z]
  note atp = darkenColor_channels[OF assms(1,2) p100]
  note atq = darkenColor_channels[OF assms(1) q0 assms(4)]
  note rng = darkenColor_unfold(2)[OF assms(1,2) p100]
  note mono = darken_amount_mono[OF assms(3)]
  have zero: "red (darkenColor c (Fin 0)) = red c" "green (darkenColor c (Fin 0)) = green c"
    "blue (darkenColor c (Fin 0)) = blue c"
    unfolding at0(1-3) darken_amount_zero using rng by simp_all
  have le: "red (darkenColor c (Fin q)) \<le> red (darkenColor c (Fin p))"
    "green (darkenColor c (Fin q)) \<le> green (darkenColor c (Fin p))"
    "blue (darkenColor c (Fin q)) \<le> blue (darkenColor c (Fin p))"
    unfolding atp(1-3) atq(1-3) using mono by simp_all
  show ?thesis
    using at0(4) zero atp(1-3) le by simp
qed

theorem darkenColor_witness:
  "is_hex_color ''#ffffff'' \<and> (0::real) \<le> 50 \<and> (50::real) \<le> 90 \<and> (90::real) \<le> 100 \<and>
   is_hex_color (darkenColor ''#ffffff'' (Fin 0)) \<and>
   red (darkenColor ''#ffffff'' (Fin 0)) = 255 \<and>
   green (darkenColor ''#ffffff'' (Fin 0)) = 255 \<and>
   blue (darkenColor ''#ffffff'' (Fin 0)) = 255 \<and>
   red (darkenColor ''#ffffff'' (Fin 50)) = 128 \<and>
   green (darkenColor ''#ffffff'' (Fin 50)) = 128 \<and>
   blue (darkenColor ''#ffffff'' (Fin 50)) = 128 \<and>
   red (darkenColor ''#ffffff'' (Fin 90)) \<le> red (darkenColor ''#ffffff'' (Fin 50)) \<and>
   green (darkenColor ''#ffffff'' (Fin 90)) \<le> green (darkenColor ''#ffffff'' (Fin 50)) \<and>
   blue (darkenColor ''#ffffff'' (Fin 90)) \<le> blue (darkenColor ''#ffffff'' (Fin 50))"
proof -
  have h: "is_hex_color ''#ffffff''" by (simp add: is_hex_color_def hex_digit_def)
  have n: "ToInt32 (parseInt16 (remove1 CHR ''#'' ''#ffffff'')) = 16777215"
    by (simp add: parseInt16_def hex_digit_def ToInt32_def)
  have ch: "red ''#ffffff'' = 255" "green ''#ffffff'' = 255" "blue ''#ffffff'' = 255"
    unfolding red_def green_def blue_def n by (simp_all add: drop_bit_eq_div and_255)
  have p: "(0::real) \<le> 50" and pq: "(50::real) \<le> 90" and q: "(90::real) \<le> 100" by simp_all
  from darkenColor_identity_and_monotone[OF h p pq q]
  show ?thesis unfolding ch amount_at_50 using h by simp
qed

end
